theory Spec2Isabelle
  imports Main
begin

text \<open>
  A model of the browser error monitor (the monitor script, which \<^verbatim>\<open>inject.js\<close> also
  carries as a string) and of the injector script \<^verbatim>\<open>inject.js\<close>, with the properties
  their specification states. Each JavaScript function is a function of the same name
  here. What a function reads from the browser or the file system is an argument; what it
  does to them is a list of effects it returns; an exception is the \<open>Inl\<close> of a sum.
  The definitions come first, the results after them.
\<close>

section \<open>JavaScript values as the monitor observes them\<close>

text \<open>
  The monitor script receives arbitrary JavaScript values (the arguments of
  \<^verbatim>\<open>console.error\<close>, the argument of \<^verbatim>\<open>sendError\<close>). It inspects them only through
  \<^verbatim>\<open>typeof\<close>, \<^verbatim>\<open>String(v)\<close>, implicit string coercion, \<^verbatim>\<open>v?.message\<close>,
  truthiness and \<^verbatim>\<open>JSON.stringify(v)\<close>. Strings, \<^verbatim>\<open>undefined\<close> and \<^verbatim>\<open>null\<close> are
  modelled concretely; every other value (boolean, number, symbol, function, object) is
  \<open>JOther\<close>, carrying what each of these operations yields on it. A thrown exception is a
  value itself, so a fallible operation has type \<open>jsval + 'a\<close> with \<open>Inl\<close> the thrown value.

  A string is a list of code units; \<^typ>\<open>char\<close> covers the code units below 256.
  \<^verbatim>\<open>String(v)\<close> throws on an object that cannot be converted to a primitive, such as
  \<^verbatim>\<open>Object.create(null)\<close> or an object whose \<^verbatim>\<open>toString\<close> throws.
\<close>

datatype jsval =
    JUndefined
  | JNull
  | JStr string
  | JOther
      (other_is_object: bool)
      (other_truthy: bool)
      (other_String: "jsval + string")
      (other_ToString: "jsval + string")
      (other_message: "jsval + jsval")
      (other_json: "jsval + string option")

text \<open>\<^verbatim>\<open>typeof v === "string"\<close> and \<^verbatim>\<open>typeof v === "object"\<close> (true of \<^verbatim>\<open>null\<close>).\<close>

fun typeof_string :: "jsval \<Rightarrow> bool" where
  "typeof_string (JStr s) = True"
| "typeof_string v = False"

fun typeof_object :: "jsval \<Rightarrow> bool" where
  "typeof_object JNull = True"
| "typeof_object (JOther ob tr st ts ms js) = ob"
| "typeof_object v = False"

text \<open>\<^verbatim>\<open>String(v)\<close>, the explicit conversion, which may throw.\<close>

fun js_String :: "jsval \<Rightarrow> jsval + string" where
  "js_String JUndefined = Inr ''undefined''"
| "js_String JNull = Inr ''null''"
| "js_String (JStr s) = Inr s"
| "js_String (JOther ob tr st ts ms js) = st"

text \<open>
  \<^verbatim>\<open>xs.map(f)\<close> with a callback that may throw: the elements are converted from left
  to right and the first exception ends the call.
\<close>

fun map_throwing :: "('a \<Rightarrow> jsval + 'b) \<Rightarrow> 'a list \<Rightarrow> jsval + 'b list" where
  "map_throwing f [] = Inr []"
| "map_throwing f (x # xs) =
     (case f x of
        Inl e \<Rightarrow> Inl e
      | Inr y \<Rightarrow> (case map_throwing f xs of Inl e \<Rightarrow> Inl e | Inr ys \<Rightarrow> Inr (y # ys)))"

text \<open>The implicit conversion \<^verbatim>\<open>ToString\<close> (it throws a TypeError on a symbol).\<close>

fun js_ToString :: "jsval \<Rightarrow> jsval + string" where
  "js_ToString JUndefined = Inr ''undefined''"
| "js_ToString JNull = Inr ''null''"
| "js_ToString (JStr s) = Inr s"
| "js_ToString (JOther ob tr st ts ms js) = ts"

text \<open>Truthiness, as \<^verbatim>\<open>||\<close> tests it, and nullishness, as \<^verbatim>\<open>??\<close> tests it.\<close>

fun js_truthy :: "jsval \<Rightarrow> bool" where
  "js_truthy JUndefined = False"
| "js_truthy JNull = False"
| "js_truthy (JStr s) = (s \<noteq> [])"
| "js_truthy (JOther ob tr st ts ms js) = tr"

fun js_nullish :: "jsval \<Rightarrow> bool" where
  "js_nullish JUndefined = True"
| "js_nullish JNull = True"
| "js_nullish v = False"

text \<open>
  \<^verbatim>\<open>v?.message\<close>: \<^verbatim>\<open>undefined\<close> on a nullish value (optional chaining) and on a
  string; on another value the property read, which may run a getter that throws.
\<close>

fun optional_message :: "jsval \<Rightarrow> jsval + jsval" where
  "optional_message (JOther ob tr st ts ms js) = ms"
| "optional_message v = Inr JUndefined"

subsection \<open>JSON.stringify\<close>

definition hex_digit :: "nat \<Rightarrow> char" where
  "hex_digit n = ''0123456789abcdef'' ! (n mod 16)"

text \<open>One code unit inside a JSON string literal (QuoteJSONString of ECMA-262).\<close>

definition json_escape :: "char \<Rightarrow> string" where
  "json_escape c =
     (if c = CHR 0x22 then [CHR 0x5C, CHR 0x22]
      else if c = CHR 0x5C then [CHR 0x5C, CHR 0x5C]
      else if c = CHR 0x08 then [CHR 0x5C, CHR ''b'']
      else if c = CHR 0x0C then [CHR 0x5C, CHR ''f'']
      else if c = CHR 0x0A then [CHR 0x5C, CHR ''n'']
      else if c = CHR 0x0D then [CHR 0x5C, CHR ''r'']
      else if c = CHR 0x09 then [CHR 0x5C, CHR ''t'']
      else if (of_char c :: nat) < 32
        then [CHR 0x5C, CHR ''u'', CHR ''0'', CHR ''0'',
              hex_digit ((of_char c :: nat) div 16), hex_digit (of_char c)]
      else [c])"

definition json_quote :: "string \<Rightarrow> string" where
  "json_quote s = [CHR 0x22] @ concat (map json_escape s) @ [CHR 0x22]"

text \<open>
  \<^verbatim>\<open>JSON.stringify(v)\<close> returns a string or \<^verbatim>\<open>undefined\<close>, or throws (a cyclic
  object, a BigInt).
\<close>

fun JSON_stringify :: "jsval \<Rightarrow> jsval + string option" where
  "JSON_stringify JUndefined = Inr None"
| "JSON_stringify JNull = Inr (Some ''null'')"
| "JSON_stringify (JStr s) = Inr (Some (json_quote s))"
| "JSON_stringify (JOther ob tr st ts ms js) = js"

text \<open>A result of \<^verbatim>\<open>JSON.stringify\<close> as a value, and as the text a coercion makes of it.\<close>

fun json_value :: "string option \<Rightarrow> jsval" where
  "json_value None = JUndefined"
| "json_value (Some s) = JStr s"

fun json_text :: "string option \<Rightarrow> string" where
  "json_text None = ''undefined''"
| "json_text (Some s) = s"

text \<open>\<^verbatim>\<open>parts.join(sep)\<close> on an array of strings.\<close>

fun join_strings :: "string \<Rightarrow> string list \<Rightarrow> string" where
  "join_strings sep [] = []"
| "join_strings sep [s] = s"
| "join_strings sep (s # t # ss) = s @ sep @ join_strings sep (t # ss)"

text \<open>
  \<^verbatim>\<open>JSON.stringify\<close> of an array whose elements are strings or \<^verbatim>\<open>undefined\<close>
  (\<open>None\<close>): an \<^verbatim>\<open>undefined\<close> element is written \<^verbatim>\<open>null\<close>.
\<close>

definition JSON_stringify_array :: "string option list \<Rightarrow> string" where
  "JSON_stringify_array xs =
     ''['' @ join_strings '',''
        (map (\<lambda>x. case x of None \<Rightarrow> ''null'' | Some s \<Rightarrow> json_quote s) xs) @ '']''"

text \<open>
  \<^verbatim>\<open>Array.prototype.join\<close> on arbitrary elements: \<^verbatim>\<open>undefined\<close> and \<^verbatim>\<open>null\<close>
  become the empty string, every other element goes through \<^verbatim>\<open>ToString\<close>.
\<close>

fun join_element :: "jsval \<Rightarrow> jsval + string" where
  "join_element JUndefined = Inr []"
| "join_element JNull = Inr []"
| "join_element v = js_ToString v"

definition js_join :: "string \<Rightarrow> jsval list \<Rightarrow> jsval + string" where
  "js_join sep vs =
     (case map_throwing join_element vs of
        Inl e \<Rightarrow> Inl e
      | Inr ss \<Rightarrow> Inr (join_strings sep ss))"

subsection \<open>Numbers read from strings\<close>

text \<open>
  \<^verbatim>\<open>parseInt(v).toString()\<close> and \<^verbatim>\<open>parseFloat(v).toString()\<close> first convert
  \<open>v\<close> with \<^verbatim>\<open>ToString\<close>. On a string of one to fifteen decimal digits the number is
  an integer below \<open>2^53\<close>, exactly representable, and prints as its digits without leading
  zeros. Every other string goes through IEEE doubles (rounding, exponents, \<^verbatim>\<open>NaN\<close>),
  which the engine computes: those results are a parameter of the model.
\<close>

record number_host =
  parseInt_toString_host :: "string \<Rightarrow> string"
  parseFloat_toString_host :: "string \<Rightarrow> string"

definition is_digit :: "char \<Rightarrow> bool" where
  "is_digit c = (c \<in> set ''0123456789'')"

definition short_decimal :: "string \<Rightarrow> bool" where
  "short_decimal s = (s \<noteq> [] \<and> length s \<le> 15 \<and> list_all is_digit s)"

definition canonical_decimal :: "string \<Rightarrow> string" where
  "canonical_decimal s =
     (let t = dropWhile (\<lambda>c. c = CHR ''0'') s in if t = [] then ''0'' else t)"

definition parseInt_toString :: "number_host \<Rightarrow> jsval \<Rightarrow> jsval + string" where
  "parseInt_toString nh v =
     (case js_ToString v of
        Inl e \<Rightarrow> Inl e
      | Inr s \<Rightarrow> Inr (if short_decimal s then canonical_decimal s
                       else parseInt_toString_host nh s))"

definition parseFloat_toString :: "number_host \<Rightarrow> jsval \<Rightarrow> jsval + string" where
  "parseFloat_toString nh v =
     (case js_ToString v of
        Inl e \<Rightarrow> Inl e
      | Inr s \<Rightarrow> Inr (if short_decimal s then canonical_decimal s
                       else parseFloat_toString_host nh s))"

section \<open>formatMessageWithPlaceholders\<close>

text \<open>\<^verbatim>\<open>args[i]\<close>: \<^verbatim>\<open>undefined\<close> past the end of the array.\<close>

definition arg_at :: "jsval list \<Rightarrow> nat \<Rightarrow> jsval" where
  "arg_at args i = (if i < length args then args ! i else JUndefined)"

text \<open>
  The replacer callback of \<^verbatim>\<open>template.replace(/%([sidfoOc])/g, ...)\<close> for the
  placeholder letter \<open>ty\<close> and the argument it consumes. A returned \<^verbatim>\<open>undefined\<close>
  (from \<^verbatim>\<open>JSON.stringify\<close>) is inserted as the text \<^verbatim>\<open>undefined\<close>.
\<close>

definition placeholder :: "number_host \<Rightarrow> char \<Rightarrow> jsval \<Rightarrow> jsval + string" where
  "placeholder nh ty arg =
     (if ty = CHR ''s'' then js_String arg
      else if ty = CHR ''i'' \<or> ty = CHR ''d'' then parseInt_toString nh arg
      else if ty = CHR ''f'' then parseFloat_toString nh arg
      else if ty = CHR ''o'' \<or> ty = CHR ''O'' then
        (case JSON_stringify arg of
           Inl e \<Rightarrow> js_String arg
         | Inr r \<Rightarrow> Inr (json_text r))
      else Inr [CHR ''%'', ty])"

text \<open>
  The global replace: the template is scanned left to right, every \<^verbatim>\<open>%\<close> followed
  by one of \<^verbatim>\<open>s i d f o O c\<close> is a match and consumes \<^verbatim>\<open>args[i++]\<close>. The result
  is the new text and the final \<open>i\<close>.
\<close>

fun replace_placeholders ::
  "number_host \<Rightarrow> string \<Rightarrow> jsval list \<Rightarrow> nat \<Rightarrow> jsval + (string \<times> nat)" where
  "replace_placeholders nh (c # d # rest) args i =
     (if c = CHR ''%'' \<and> d \<in> set ''sidfoOc'' then
        (case placeholder nh d (arg_at args i) of
           Inl e \<Rightarrow> Inl e
         | Inr s \<Rightarrow>
             (case replace_placeholders nh rest args (Suc i) of
                Inl e \<Rightarrow> Inl e
              | Inr (t, j) \<Rightarrow> Inr (s @ t, j)))
      else
        (case replace_placeholders nh (d # rest) args i of
           Inl e \<Rightarrow> Inl e
         | Inr (t, j) \<Rightarrow> Inr (c # t, j)))"
| "replace_placeholders nh cs args i = Inr (cs, i)"

text \<open>\<^verbatim>\<open>String(arg)\<close> as a value: the string, or the exception it throws.\<close>

definition String_value :: "jsval \<Rightarrow> jsval + jsval" where
  "String_value arg = (case js_String arg of Inl e \<Rightarrow> Inl e | Inr s \<Rightarrow> Inr (JStr s))"

text \<open>
  One of the arguments left over after the placeholders (\<^verbatim>\<open>args.slice(i).map\<close>).
  The \<^verbatim>\<open>String(arg)\<close> of the \<^verbatim>\<open>catch\<close> and of the last line is not guarded.
\<close>

definition remaining_arg :: "jsval \<Rightarrow> jsval + jsval" where
  "remaining_arg arg =
     (if typeof_object arg then
        (case optional_message arg of
           Inl e \<Rightarrow> String_value arg
         | Inr m \<Rightarrow>
             if \<not> js_nullish m then Inr m
             else (case JSON_stringify arg of
                     Inl e \<Rightarrow> String_value arg
                   | Inr r \<Rightarrow> Inr (json_value r)))
      else String_value arg)"

definition formatMessageWithPlaceholders ::
  "number_host \<Rightarrow> jsval \<Rightarrow> jsval list \<Rightarrow> jsval + string" where
  "formatMessageWithPlaceholders nh template args =
     (case template of
        JStr t \<Rightarrow>
          (case replace_placeholders nh t args 0 of
             Inl e \<Rightarrow> Inl e
           | Inr (formatted, i) \<Rightarrow>
               (case map_throwing remaining_arg (drop i args) of
                  Inl e \<Rightarrow> Inl e
                | Inr remainingArgs \<Rightarrow>
                    if length remainingArgs > 0 then
                      (case js_join '' '' remainingArgs of
                         Inl e \<Rightarrow> Inl e
                       | Inr joined \<Rightarrow> Inr (formatted @ '' '' @ joined))
                    else Inr formatted))
      | _ \<Rightarrow>
          (case map_throwing js_String (template # args) of
             Inl e \<Rightarrow> Inl e
           | Inr strings \<Rightarrow> Inr (join_strings '' '' strings)))"

section \<open>Error events, effects and the page\<close>

text \<open>
  The two shapes of data handed to \<^verbatim>\<open>sendToWebhook\<close>; the \<^verbatim>\<open>type\<close> field is the
  constructor. The message of a console event is the formatted string when it comes from
  the interceptor and any value when it comes from \<^verbatim>\<open>sendError\<close>.
\<close>

datatype error_event =
    DomEvent string string
  | ConsoleEvent string jsval string bool string

fun event_type :: "error_event \<Rightarrow> string" where
  "event_type (DomEvent markup ts) = ''dom''"
| "event_type (ConsoleEvent meth msg json srv ts) = ''console''"

text \<open>The object \<^verbatim>\<open>{ source: "superengineer", ...data }\<close> given to \<^verbatim>\<open>postMessage\<close>.\<close>

record envelope =
  source :: string
  payload :: error_event

text \<open>
  A function value that can be stored in \<^verbatim>\<open>console.error\<close>: a function of the page
  or of the browser (told apart by a number), or the monitor's interceptor.
\<close>

datatype console_fn = PageFn nat | Interceptor

text \<open>
  What a run does to the world, in order. \<open>Log\<close>, \<open>Warn\<close> and \<open>LogData\<close> are calls of
  \<^verbatim>\<open>console.log\<close> and \<^verbatim>\<open>console.warn\<close> with their first argument (a leading
  pictograph is left out); \<open>ErrorCall\<close> is a call of whatever \<^verbatim>\<open>console.error\<close>
  holds at that moment; \<open>Invoke\<close> is a call of one given function value. The console
  functions return normally. \<open>QueryDiv\<close> is one \<^verbatim>\<open>shadow.querySelector('div')\<close>,
  \<open>Timeout d\<close> one \<^verbatim>\<open>setTimeout\<close> of \<open>d\<close> milliseconds that fired, \<open>PostMessage\<close> a
  \<^verbatim>\<open>window.parent.postMessage\<close> that returned. The \<open>Start\<close> effects are calls of the
  two asynchronous functions whose promise the caller drops.
\<close>

datatype effect =
    Log string
  | LogData string error_event
  | Warn string
  | ErrorCall "jsval list"
  | Invoke console_fn "jsval list"
  | QueryDiv
  | Timeout nat
  | PostMessage envelope
  | StartCheckDomErrors
  | StartHandleConsoleError string jsval "jsval list"

text \<open>
  A computation returns a value or throws (\<open>Inl\<close>; for an asynchronous function: the
  promise is rejected), and leaves a trace of effects.
\<close>

type_synonym 'a comp = "(jsval + 'a) \<times> effect list"

definition prepend :: "effect list \<Rightarrow> 'a comp \<Rightarrow> 'a comp" where
  "prepend tr m = (fst m, tr @ snd m)"

text \<open>\<^verbatim>\<open>try { body } catch (err) { handler }\<close>.\<close>

definition try_catch :: "'a comp \<Rightarrow> (jsval \<Rightarrow> 'a comp) \<Rightarrow> 'a comp" where
  "try_catch body handler =
     (case fst body of
        Inl err \<Rightarrow> prepend (snd body) (handler err)
      | Inr x \<Rightarrow> body)"

text \<open>
  An element is known by its XML serialization
  (\<^verbatim>\<open>new XMLSerializer().serializeToString(header)\<close>, which does not throw on an
  element). A shadow root is known by what its \<open>k\<close>-th \<^verbatim>\<open>querySelector('div')\<close> of one
  scan returns; a portal by its \<^verbatim>\<open>shadowRoot\<close>, which may be \<^verbatim>\<open>null\<close>.
\<close>

datatype element = Element (outerXML: string)

type_synonym shadow = "nat \<Rightarrow> element option"

record portal =
  shadowRoot :: "shadow option"

text \<open>
  The page during one run: whether \<^verbatim>\<open>window.parent && window !== window.parent\<close>,
  the exception \<^verbatim>\<open>postMessage\<close> throws on an envelope if it throws (one that cannot
  be cloned), the result of \<^verbatim>\<open>document.querySelectorAll('nextjs-portal')\<close>, and the
  string \<^verbatim>\<open>new Date().toISOString()\<close> returns.
\<close>

record page =
  has_parent :: bool
  postMessage_throws :: "envelope \<Rightarrow> jsval option"
  portals :: "portal list"
  now :: string

section \<open>sendToWebhook\<close>

definition sendToWebhook :: "page \<Rightarrow> error_event \<Rightarrow> unit comp" where
  "sendToWebhook pg data =
     prepend [LogData ''Send to webhook'' data]
       (try_catch
          (if has_parent pg then
             (case postMessage_throws pg \<lparr>source = ''superengineer'', payload = data\<rparr> of
                Some err \<Rightarrow> (Inl err, [])
              | None \<Rightarrow> (Inr (), [PostMessage \<lparr>source = ''superengineer'', payload = data\<rparr>]))
           else (Inr (), [Warn ''Parent window not available for postMessage.'']))
          (\<lambda>err. (Inr (), [ErrorCall [JStr ''Failed to send message to parent:'', err]])))"

section \<open>waitForHeaderElement\<close>

text \<open>
  The inner \<^verbatim>\<open>check(count)\<close>; \<open>k\<close> counts the queries this wait has already made.
  The promise is only ever resolved, with the element or with \<^verbatim>\<open>null\<close>.
\<close>

function check :: "shadow \<Rightarrow> nat \<Rightarrow> nat \<Rightarrow> int \<Rightarrow> element option comp" where
  "check shadow delay k count =
     (let el = shadow k in
      if el \<noteq> None \<or> count \<le> 0 then (Inr el, [QueryDiv])
      else prepend [QueryDiv, Timeout delay] (check shadow delay (Suc k) (count - 1)))"
  by pat_completeness auto
termination
  by (relation "measure (\<lambda>(shadow, delay, k, count). nat count)") auto

declare check.simps [simp del]

definition waitForHeaderElement :: "shadow \<Rightarrow> int \<Rightarrow> nat \<Rightarrow> element option comp" where
  "waitForHeaderElement shadow retries delay = check shadow delay 0 retries"

section \<open>checkDomErrors\<close>

text \<open>
  The \<^verbatim>\<open>for (const portal of portals)\<close> loop with the local \<^verbatim>\<open>foundError\<close>. The
  body of the \<^verbatim>\<open>try\<close> either returns \<^verbatim>\<open>true\<close> from the function, or falls through
  to the next portal, or throws into the \<^verbatim>\<open>catch\<close>, which calls
  \<^verbatim>\<open>console.error\<close> and goes on with the next portal.
\<close>

fun scan_portals :: "page \<Rightarrow> portal list \<Rightarrow> bool \<Rightarrow> bool comp" where
  "scan_portals pg [] foundError = (Inr foundError, [])"
| "scan_portals pg (p # ps) foundError =
     (case shadowRoot p of
        None \<Rightarrow> scan_portals pg ps foundError
      | Some shadow \<Rightarrow>
          (case waitForHeaderElement shadow 10 200 of
             (Inl error, tr) \<Rightarrow>
               prepend (tr @ [ErrorCall [JStr ''Error checking DOM for errors:'', error]])
                 (scan_portals pg ps foundError)
           | (Inr None, tr) \<Rightarrow> prepend tr (scan_portals pg ps foundError)
           | (Inr (Some header), tr) \<Rightarrow>
               (case sendToWebhook pg (DomEvent (outerXML header) (now pg)) of
                  (Inl error, tr') \<Rightarrow>
                    prepend
                      (tr @ [Log ''Found potential Next.js error element''] @ tr' @
                       [ErrorCall [JStr ''Error checking DOM for errors:'', error]])
                      (scan_portals pg ps True)
                | (Inr u, tr') \<Rightarrow>
                    (Inr True,
                     tr @ [Log ''Found potential Next.js error element''] @ tr' @
                     [Log ''DOM error sent to webhook'']))))"

definition checkDomErrors :: "page \<Rightarrow> bool comp" where
  "checkDomErrors pg =
     prepend [Log ''Checking for Next.js errors in DOM''] (scan_portals pg (portals pg) False)"

section \<open>handleConsoleError and sendError\<close>

text \<open>
  One element of \<^verbatim>\<open>args.map(...)\<close>: a string, or \<^verbatim>\<open>undefined\<close> (\<open>None\<close>). The
  callback tries \<^verbatim>\<open>JSON.stringify(arg)\<close> on an object and \<^verbatim>\<open>String(arg)\<close> on
  anything else; its \<^verbatim>\<open>catch\<close> returns \<^verbatim>\<open>String(arg)\<close>, which is not guarded and
  may throw out of the callback.
\<close>

definition String_option :: "jsval \<Rightarrow> jsval + string option" where
  "String_option arg = (case js_String arg of Inl e \<Rightarrow> Inl e | Inr s \<Rightarrow> Inr (Some s))"

definition serialize_arg :: "jsval \<Rightarrow> jsval + string option" where
  "serialize_arg arg =
     (case (if typeof_object arg then JSON_stringify arg else String_option arg) of
        Inl e \<Rightarrow> String_option arg
      | Inr r \<Rightarrow> Inr r)"

text \<open>\<^verbatim>\<open>JSON.stringify(args.map(...))\<close>: the text, or the exception of the callback.\<close>

definition serialize_args :: "jsval list \<Rightarrow> jsval + string" where
  "serialize_args args =
     (case map_throwing serialize_arg args of
        Inl e \<Rightarrow> Inl e
      | Inr strings \<Rightarrow> Inr (JSON_stringify_array strings))"

text \<open>
  The asynchronous \<^verbatim>\<open>handleConsoleError\<close> has no \<^verbatim>\<open>return\<close> with a value: its
  promise is fulfilled with \<^verbatim>\<open>undefined\<close> (\<open>Inr ()\<close>), or rejected (\<open>Inl\<close>) when
  building the console event throws, which is before \<^verbatim>\<open>sendToWebhook\<close> is called.
  \<^verbatim>\<open>isServer\<close> is the constant \<^verbatim>\<open>false\<close>.
\<close>

definition isServer :: bool where
  "isServer = False"

definition handleConsoleError :: "page \<Rightarrow> string \<Rightarrow> jsval \<Rightarrow> jsval list \<Rightarrow> unit comp" where
  "handleConsoleError pg method message args =
     prepend [Log (''Handling '' @ method @ '' message:'')]
       (if method \<noteq> ''error'' then (Inr (), [])
        else
          (case checkDomErrors pg of
             (Inl e, tr) \<Rightarrow> (Inl e, tr)
           | (Inr domErrorFound, tr) \<Rightarrow>
               if \<not> domErrorFound then
                 (case serialize_args args of
                    Inl e \<Rightarrow> (Inl e, tr @ [Log ''No DOM error found, sending console error''])
                  | Inr json \<Rightarrow>
                      prepend (tr @ [Log ''No DOM error found, sending console error''])
                        (sendToWebhook pg
                           (ConsoleEvent method message json isServer (now pg))))
               else (Inr (), tr @ [Log ''DOM error found and sent, skipping console error''])))"

text \<open>
  What \<^verbatim>\<open>sendError\<close> returns to its caller: the boolean \<^verbatim>\<open>false\<close>, or the promise
  of \<^verbatim>\<open>handleConsoleError\<close>, given here by how it settles: rejected with a value, or
  fulfilled with a value, which for a function without a \<^verbatim>\<open>return\<close> value is
  \<^verbatim>\<open>undefined\<close>.
\<close>

datatype send_result = ReturnsFalse | ReturnsPromise "jsval + jsval"

definition promise_of :: "jsval + unit \<Rightarrow> jsval + jsval" where
  "promise_of r = (case r of Inl e \<Rightarrow> Inl e | Inr u \<Rightarrow> Inr JUndefined)"

text \<open>
  \<^verbatim>\<open>sendErrorManually\<close>, exposed as \<^verbatim>\<open>sendError\<close>. The script runs in a browser,
  so \<^verbatim>\<open>typeof window === 'undefined'\<close> is false. Reading \<^verbatim>\<open>error?.message\<close> and
  \<^verbatim>\<open>String(error)\<close> are inside the \<^verbatim>\<open>try\<close>: when one throws, the function logs and
  returns \<^verbatim>\<open>false\<close>.
\<close>

definition sendErrorManually :: "page \<Rightarrow> jsval \<Rightarrow> send_result \<times> effect list" where
  "sendErrorManually pg error =
     (case optional_message error of
        Inl err \<Rightarrow> (ReturnsFalse, [Log ''Failed to manually send error:''])
      | Inr m \<Rightarrow>
          (case (if js_truthy m then Inr m else String_value error) of
             Inl err \<Rightarrow> (ReturnsFalse, [Log ''Failed to manually send error:''])
           | Inr message \<Rightarrow>
               (let run = handleConsoleError pg ''error'' message [error]
                in (ReturnsPromise (promise_of (fst run)), snd run))))"

section \<open>The monitor instance and the window\<close>

text \<open>
  The \<^verbatim>\<open>console\<close> object with the five members the monitor copies, and the two
  global handler slots, which hold a handler of the page or one of the monitor's.
\<close>

record console_obj =
  c_log :: console_fn
  c_warn :: console_fn
  c_error :: console_fn
  c_info :: console_fn
  c_debug :: console_fn

datatype handler = PageHandler nat | MonitorOnError | MonitorOnUnhandledRejection

text \<open>
  The closure variables of one \<^verbatim>\<open>initEnhancedErrorMonitor\<close> call (\<open>isInitialized\<close>,
  \<open>originalConsole\<close>, \<open>lastErrorHash\<close>) together with the globals it touches:
  \<^verbatim>\<open>console\<close>, \<^verbatim>\<open>window.onerror\<close>, \<^verbatim>\<open>window.onunhandledrejection\<close>, whether the
  mutation observer made by \<^verbatim>\<open>initialize\<close> is observing, and whether
  \<^verbatim>\<open>window.__cleanupErrorMonitor\<close> is set.
\<close>

record monitor =
  isInitialized :: bool
  originalConsole :: "console_obj option"
  lastErrorHash :: string
  console :: console_obj
  onerror :: "handler option"
  onunhandledrejection :: "handler option"
  observer_connected :: bool
  cleanupErrorMonitor :: bool

definition setupConsoleInterceptors :: "monitor \<Rightarrow> monitor \<times> effect list" where
  "setupConsoleInterceptors m =
     (if isInitialized m then (m, [])
      else
        (m\<lparr>originalConsole := Some (console m),
            console := (console m)\<lparr>c_error := Interceptor\<rparr>\<rparr>,
         [Log ''Setting up console interceptors'']))"

definition setupErrorHandlers :: "monitor \<Rightarrow> monitor \<times> effect list" where
  "setupErrorHandlers m =
     (m\<lparr>onerror := Some MonitorOnError,
         onunhandledrejection := Some MonitorOnUnhandledRejection\<rparr>,
      [Log ''Setting up error handlers''])"

definition setupNextJsErrorObserver :: "monitor \<Rightarrow> monitor \<times> effect list" where
  "setupNextJsErrorObserver m =
     (m\<lparr>observer_connected := True\<rparr>, [Log ''Setting up Next.js error observer''])"

definition initialize :: "monitor \<Rightarrow> monitor \<times> effect list" where
  "initialize m =
     (if isInitialized m then (m, [])
      else
        (let m0 = m\<lparr>isInitialized := True\<rparr>;
             (m1, t1) = setupConsoleInterceptors m0;
             (m2, t2) = setupErrorHandlers m1;
             (m3, t3) = setupNextJsErrorObserver m2
         in (m3\<lparr>cleanupErrorMonitor := True\<rparr>, t1 @ t2 @ t3 @ [StartCheckDomErrors])))"

text \<open>The closure \<^verbatim>\<open>cleanup\<close> that \<^verbatim>\<open>initialize\<close> builds.\<close>

definition cleanup :: "monitor \<Rightarrow> monitor \<times> effect list" where
  "cleanup m =
     (m\<lparr>console :=
           (case originalConsole m of
              Some oc \<Rightarrow> (console m)\<lparr>c_error := c_error oc\<rparr>
            | None \<Rightarrow> console m),
         onerror := None,
         onunhandledrejection := None,
         observer_connected := False,
         isInitialized := False,
         originalConsole := None\<rparr>,
      [Log ''Cleaning up error monitor''])"

text \<open>The \<^verbatim>\<open>cleanup\<close> of the public API: \<^verbatim>\<open>window.__cleanupErrorMonitor?.()\<close>.\<close>

definition api_cleanup :: "monitor \<Rightarrow> monitor \<times> effect list" where
  "api_cleanup m = (if cleanupErrorMonitor m then cleanup m else (m, []))"

text \<open>
  \<^verbatim>\<open>initEnhancedErrorMonitor\<close>: fresh closure variables, then \<^verbatim>\<open>initialize()\<close>.
  The argument gives the globals as the call finds them.
\<close>

definition initEnhancedErrorMonitor :: "monitor \<Rightarrow> monitor \<times> effect list" where
  "initEnhancedErrorMonitor w =
     (let (m, t) = initialize (w\<lparr>isInitialized := False, originalConsole := None,
                                  lastErrorHash := []\<rparr>)
      in (m, Log ''[EnhancedErrorMonitor] Initializing...'' # t))"

text \<open>The key \<^verbatim>\<open>`console-error-${formatted.substring(0, 100)}`\<close>.\<close>

definition errorHash :: "string \<Rightarrow> string" where
  "errorHash formatted = ''console-error-'' @ take 100 formatted"

text \<open>
  The function that \<^verbatim>\<open>setupConsoleInterceptors\<close> assigns to \<^verbatim>\<open>console.error\<close>,
  called with \<open>args\<close>. The result is \<open>Inl\<close> when the call throws: reading
  \<^verbatim>\<open>originalConsole.error\<close> while \<^verbatim>\<open>originalConsole\<close> is \<^verbatim>\<open>null\<close> is a TypeError,
  given by the caller as \<open>type_error\<close>.
\<close>

definition interceptor ::
  "number_host \<Rightarrow> jsval \<Rightarrow> monitor \<Rightarrow> jsval list \<Rightarrow> (jsval + unit) \<times> monitor \<times> effect list" where
  "interceptor nh type_error m args =
     (let (m', t) =
           (case formatMessageWithPlaceholders nh (arg_at args 0) (drop 1 args) of
              Inl formatErr \<Rightarrow> (m, [Log ''Error in console error interceptor:''])
            | Inr formatted \<Rightarrow>
                if errorHash formatted \<noteq> lastErrorHash m then
                  (m\<lparr>lastErrorHash := errorHash formatted\<rparr>,
                   [StartHandleConsoleError ''error'' (JStr formatted) args])
                else (m, []))
      in case originalConsole m' of
           None \<Rightarrow> (Inl type_error, m', t)
         | Some oc \<Rightarrow> (Inr (), m', t @ [Invoke (c_error oc) args]))"

text \<open>A call \<^verbatim>\<open>console.error(...args)\<close> by anyone, through the current binding.\<close>

definition console_error ::
  "number_host \<Rightarrow> jsval \<Rightarrow> monitor \<Rightarrow> jsval list \<Rightarrow> (jsval + unit) \<times> monitor \<times> effect list" where
  "console_error nh type_error m args =
     (case c_error (console m) of
        PageFn n \<Rightarrow> (Inr (), m, [Invoke (PageFn n) args])
      | Interceptor \<Rightarrow> interceptor nh type_error m args)"

text \<open>
  A sequence of \<^verbatim>\<open>console.error\<close> calls, one after the other; a call that throws ends
  the sequence, as it ends the caller.
\<close>

fun console_errors ::
  "number_host \<Rightarrow> jsval \<Rightarrow> monitor \<Rightarrow> jsval list list \<Rightarrow> (jsval + unit) \<times> monitor \<times> effect list" where
  "console_errors nh type_error m [] = (Inr (), m, [])"
| "console_errors nh type_error m (args # rest) =
     (case console_error nh type_error m args of
        (Inl e, m', t) \<Rightarrow> (Inl e, m', t)
      | (Inr u, m', t) \<Rightarrow>
          (case console_errors nh type_error m' rest of (r, m'', t') \<Rightarrow> (r, m'', t @ t')))"

text \<open>The report flows a trace starts, and the events a trace hands to \<^verbatim>\<open>sendToWebhook\<close>.\<close>

fun started_flows :: "effect list \<Rightarrow> (string \<times> jsval \<times> jsval list) list" where
  "started_flows [] = []"
| "started_flows (StartHandleConsoleError method message args # t) =
     (method, message, args) # started_flows t"
| "started_flows (e # t) = started_flows t"

fun sent_events :: "effect list \<Rightarrow> error_event list" where
  "sent_events [] = []"
| "sent_events (LogData label data # t) =
     (if label = ''Send to webhook'' then data # sent_events t else sent_events t)"
| "sent_events (e # t) = sent_events t"

fun posted :: "effect list \<Rightarrow> envelope list" where
  "posted [] = []"
| "posted (PostMessage env # t) = env # posted t"
| "posted (e # t) = posted t"

fun queries :: "effect list \<Rightarrow> nat" where
  "queries [] = 0"
| "queries (QueryDiv # t) = Suc (queries t)"
| "queries (e # t) = queries t"

fun waited :: "effect list \<Rightarrow> nat" where
  "waited [] = 0"
| "waited (Timeout d # t) = d + waited t"
| "waited (e # t) = waited t"

section \<open>The injector script\<close>

text \<open>
  The files and directories \<^verbatim>\<open>inject.js\<close> names, and what the script does to the
  world: console output (the first argument, without a leading pictograph and the white
  space around it) and file-system calls that returned.
\<close>

datatype path = ErrorMonitorPath | AppPath | PublicDir | AppErrorMonitorPath | LayoutPath

datatype inject_effect =
    ConsoleLog string
  | ConsoleError string
  | WriteFile path string
  | MkDir path
  | CopyFile path path

text \<open>
  The file system as the script meets it: for each call that can fail, the exception it
  throws if it does; for each \<^verbatim>\<open>existsSync\<close>, its answer; and the layout file's text.
\<close>

record filesystem =
  write_monitor_throws :: "jsval option"
  app_exists :: bool
  public_exists :: bool
  mkdir_throws :: "jsval option"
  copy_throws :: "jsval option"
  layout_exists :: bool
  read_layout :: "jsval + string"
  write_layout_throws :: "jsval option"

text \<open>\<^verbatim>\<open>s.includes(needle)\<close> and the position of the first occurrence.\<close>

fun find_sub :: "string \<Rightarrow> string \<Rightarrow> nat option" where
  "find_sub needle [] = (if needle = [] then Some 0 else None)"
| "find_sub needle (c # cs) =
     (if take (length needle) (c # cs) = needle then Some 0
      else map_option Suc (find_sub needle cs))"

definition str_includes :: "string \<Rightarrow> string \<Rightarrow> bool" where
  "str_includes s needle = (find_sub needle s \<noteq> None)"

text \<open>The characters below 256 that the regular expression class \<^verbatim>\<open>\s\<close> matches.\<close>

definition is_space :: "char \<Rightarrow> bool" where
  "is_space c = (c \<in> {CHR 0x20, CHR 0x09, CHR 0x0A, CHR 0x0B, CHR 0x0C, CHR 0x0D, CHR 0xA0})"

text \<open>
  The first \<^verbatim>\<open>replace\<close>: the configuration goes after the first occurrence of the
  marker line, on a new line.
\<close>

definition isProd_line :: string where
  "isProd_line = ''const isProd = process.env.NODE_ENV === '' @ [CHR 0x27] @ ''production'' @ [CHR 0x27] @ '';''"

definition insert_config :: "string \<Rightarrow> string \<Rightarrow> string" where
  "insert_config config s =
     (case find_sub isProd_line s of
        None \<Rightarrow> s
      | Some i \<Rightarrow>
          take (i + length isProd_line) s @ [CHR 0x0A] @ config
            @ drop (i + length isProd_line) s)"

text \<open>
  The second \<^verbatim>\<open>replace\<close>, of \<^verbatim>\<open>/(\s+)(<\/head>)/\<close> by
  \<^verbatim>\<open>$1${scriptTag}\n$1$2\<close>: the leftmost run of white space that reaches a
  \<^verbatim>\<open></head>\<close>.
\<close>

fun insert_script_tag :: "string \<Rightarrow> string \<Rightarrow> string" where
  "insert_script_tag tag [] = []"
| "insert_script_tag tag (c # cs) =
     (let ws = takeWhile is_space (c # cs); after = dropWhile is_space (c # cs) in
      if ws \<noteq> [] \<and> take 7 after = ''</head>''
      then ws @ tag @ [CHR 0x0A] @ ws @ after
      else c # insert_script_tag tag cs)"

text \<open>
  The script from top to bottom. \<open>monitor_source\<close>, \<open>config\<close> and \<open>tag\<close> are the three
  template literals (\<^verbatim>\<open>errorMonitorScript\<close>, \<^verbatim>\<open>errorMonitorConfig\<close>,
  \<^verbatim>\<open>scriptTag\<close>); the last two hold no \<^verbatim>\<open>$\<close>, so they are inserted as they are. The result is the exit status of the process and what it did;
  falling off the end of the script is status 0.
\<close>

definition inject_fail :: "inject_effect list \<Rightarrow> nat \<times> inject_effect list" where
  "inject_fail sofar = (1, sofar @ [ConsoleError ''Error in inject.js:''])"

definition setup_complete :: "inject_effect list" where
  "setup_complete =
     [ConsoleLog ''Setup complete!'', ConsoleLog (CHR 0x0A # ''Next steps:''),
      ConsoleLog ''1. Your error monitor is now available at /error-monitor.js'',
      ConsoleLog ''2. Start your Next.js app to test error monitoring'',
      ConsoleLog ''3. For production, upload error-monitor.js to a CDN and update the URL in layout.tsx'']"

definition patch_layout ::
  "filesystem \<Rightarrow> string \<Rightarrow> string \<Rightarrow> inject_effect list \<Rightarrow> nat \<times> inject_effect list" where
  "patch_layout fs config tag sofar =
     (if layout_exists fs then
        (case read_layout fs of
           Inl e \<Rightarrow> inject_fail sofar
         | Inr layoutContent \<Rightarrow>
             if str_includes layoutContent ''error-monitor.js'' then
               (0, sofar @ [ConsoleLog ''Error monitor already exists in layout.tsx'']
                     @ setup_complete)
             else
               (case write_layout_throws fs of
                  Some e \<Rightarrow> inject_fail sofar
                | None \<Rightarrow>
                    (0, sofar @
                        [WriteFile LayoutPath
                           (insert_script_tag tag (insert_config config layoutContent)),
                         ConsoleLog ''layout.tsx updated with error monitor'']
                        @ setup_complete)))
      else
        (0, sofar @
            [ConsoleLog ''layout.tsx not found at:'',
             ConsoleLog ''Please manually add the error monitor script to your layout file'']
            @ setup_complete))"

definition copy_monitor ::
  "filesystem \<Rightarrow> string \<Rightarrow> string \<Rightarrow> inject_effect list \<Rightarrow> nat \<times> inject_effect list" where
  "copy_monitor fs config tag sofar =
     (case copy_throws fs of
        Some e \<Rightarrow> inject_fail sofar
      | None \<Rightarrow>
          patch_layout fs config tag
            (sofar @ [CopyFile ErrorMonitorPath AppErrorMonitorPath,
                     ConsoleLog ''error-monitor.js copied to app/public folder'']))"

definition inject :: "filesystem \<Rightarrow> string \<Rightarrow> string \<Rightarrow> string \<Rightarrow> nat \<times> inject_effect list" where
  "inject fs monitor_source config tag =
     (case write_monitor_throws fs of
        Some e \<Rightarrow> inject_fail []
      | None \<Rightarrow>
          (let sofar = [WriteFile ErrorMonitorPath monitor_source,
                       ConsoleLog ''error-monitor.js created successfully''] in
           if \<not> app_exists fs then
             (1, sofar @ [ConsoleError ''App directory not found:'',
                         ConsoleLog ''Please update the appPath variable to point to your Next.js app directory''])
           else if \<not> public_exists fs then
             (case mkdir_throws fs of
                Some e \<Rightarrow> inject_fail sofar
              | None \<Rightarrow> copy_monitor fs config tag (sofar @ [MkDir PublicDir]))
           else copy_monitor fs config tag sofar))"

section \<open>Vocabulary of the results\<close>

text \<open>The trace of a wait that stops at its \<open>(j+1)\<close>-th query, after \<open>j\<close> timeouts.\<close>

definition poll_trace :: "nat \<Rightarrow> nat \<Rightarrow> effect list" where
  "poll_trace j delay = concat (replicate j [QueryDiv, Timeout delay]) @ [QueryDiv]"

text \<open>
  Three shadow roots: the header is there from the third query on, it is never there, or
  it is there only at the eleventh query.
\<close>

definition early_header :: shadow where
  "early_header k = (if 2 \<le> k then Some (Element ''<div></div>'') else None)"

definition absent_header :: shadow where
  "absent_header k = None"

definition late_header :: shadow where
  "late_header k = (if k = 10 then Some (Element ''<div></div>'') else None)"

text \<open>
  The header the scan finds in a portal: the element its wait resolves with, if the portal
  has a shadow root. \<open>found_header\<close> is the header of the first portal that has one.
\<close>

definition header_of :: "portal \<Rightarrow> element option" where
  "header_of p =
     (case shadowRoot p of
        None \<Rightarrow> None
      | Some shadow \<Rightarrow>
          (case fst (waitForHeaderElement shadow 10 200) of Inl e \<Rightarrow> None | Inr r \<Rightarrow> r))"

fun found_header :: "portal list \<Rightarrow> element option" where
  "found_header [] = None"
| "found_header (p # ps) = (case header_of p of Some h \<Rightarrow> Some h | None \<Rightarrow> found_header ps)"

text \<open>An event is delivered when there is a parent and \<^verbatim>\<open>postMessage\<close> returns.\<close>

definition delivered :: "page \<Rightarrow> error_event \<Rightarrow> bool" where
  "delivered pg data =
     (has_parent pg \<and> postMessage_throws pg \<lparr>source = ''superengineer'', payload = data\<rparr> = None)"

text \<open>
  Example pages: one with three portals (no shadow root; a header from the third query
  on; a header at the eleventh query), one without portals, one that is a top-level
  window, one whose \<^verbatim>\<open>postMessage\<close> throws. And the value \<^verbatim>\<open>new Error("boom")\<close>.
\<close>

definition example_time :: string where
  "example_time = ''2024-05-01T12:00:00.000Z''"

definition overlay_page :: page where
  "overlay_page =
     \<lparr>has_parent = True, postMessage_throws = (\<lambda>env. None),
      portals = [\<lparr>shadowRoot = None\<rparr>, \<lparr>shadowRoot = Some early_header\<rparr>,
                 \<lparr>shadowRoot = Some late_header\<rparr>],
      now = example_time\<rparr>"

definition plain_page :: page where
  "plain_page =
     \<lparr>has_parent = True, postMessage_throws = (\<lambda>env. None), portals = [], now = example_time\<rparr>"

definition top_page :: page where
  "top_page =
     \<lparr>has_parent = False, postMessage_throws = (\<lambda>env. None), portals = [], now = example_time\<rparr>"

definition blocked_page :: page where
  "blocked_page =
     \<lparr>has_parent = True, postMessage_throws = (\<lambda>env. Some (JStr ''DataCloneError'')),
      portals = [], now = example_time\<rparr>"

definition boom_error :: jsval where
  "boom_error =
     JOther True True (Inr ''Error: boom'') (Inr ''Error: boom'') (Inr (JStr ''boom''))
       (Inr (Some ''{}''))"

text \<open>
  Values that do not convert. \<open>null_proto\<close> is \<^verbatim>\<open>Object.create(null)\<close>: both string
  conversions throw a TypeError, \<^verbatim>\<open>JSON.stringify\<close> gives \<^verbatim>\<open>{}\<close>. \<open>cyclic_bare\<close>
  is such an object with a \<^verbatim>\<open>message\<close> property \<^verbatim>\<open>"m"\<close> and a property that refers
  to the object itself, so that \<^verbatim>\<open>JSON.stringify\<close> throws too.
\<close>

definition conversion_error :: jsval where
  "conversion_error =
     JOther True True (Inr ''TypeError: Cannot convert object to primitive value'')
       (Inr ''TypeError: Cannot convert object to primitive value'')
       (Inr (JStr ''Cannot convert object to primitive value'')) (Inr (Some ''{}''))"

definition circular_error :: jsval where
  "circular_error =
     JOther True True (Inr ''TypeError: Converting circular structure to JSON'')
       (Inr ''TypeError: Converting circular structure to JSON'')
       (Inr (JStr ''Converting circular structure to JSON'')) (Inr (Some ''{}''))"

definition null_proto :: jsval where
  "null_proto =
     JOther True True (Inl conversion_error) (Inl conversion_error) (Inr JUndefined) (Inr (Some ''{}''))"

definition cyclic_bare :: jsval where
  "cyclic_bare =
     JOther True True (Inl conversion_error) (Inl conversion_error) (Inr (JStr ''m'')) (Inl circular_error)"

text \<open>An engine whose number conversions answer \<^verbatim>\<open>NaN\<close> on every string left to it.\<close>

definition plain_host :: number_host where
  "plain_host = \<lparr>parseInt_toString_host = (\<lambda>s. ''NaN''), parseFloat_toString_host = (\<lambda>s. ''NaN'')\<rparr>"

text \<open>
  The monitor after \<^verbatim>\<open>initEnhancedErrorMonitor\<close> has run in a window \<open>w\<close>, and after
  the API's \<^verbatim>\<open>cleanup()\<close> has then run. A window with the browser's own console and a
  page handler in \<^verbatim>\<open>window.onerror\<close>. The monitor \<^verbatim>\<open>setupConsoleInterceptors\<close>
  makes of that window when it is called while \<open>isInitialized\<close> is false: the console
  functions are saved and \<^verbatim>\<open>console.error\<close> is the interceptor.
\<close>

definition initialized_monitor :: "monitor \<Rightarrow> monitor" where
  "initialized_monitor w = fst (initEnhancedErrorMonitor w)"

definition cleaned_up :: "monitor \<Rightarrow> monitor" where
  "cleaned_up w = fst (api_cleanup (initialized_monitor w))"

definition fresh_window :: monitor where
  "fresh_window =
     \<lparr>isInitialized = False, originalConsole = None, lastErrorHash = [],
      console = \<lparr>c_log = PageFn 0, c_warn = PageFn 1, c_error = PageFn 2,
                  c_info = PageFn 3, c_debug = PageFn 4\<rparr>,
      onerror = Some (PageHandler 0), onunhandledrejection = None,
      observer_connected = False, cleanupErrorMonitor = False\<rparr>"

definition intercepting_monitor :: monitor where
  "intercepting_monitor = fst (setupConsoleInterceptors fresh_window)"

text \<open>
  Two file systems with the application directory and without the layout file: one where
  every call succeeds (the \<^verbatim>\<open>public\<close> directory has to be made), one where the copy
  into \<^verbatim>\<open>public\<close> is refused.
\<close>

definition bare_app :: filesystem where
  "bare_app =
     \<lparr>write_monitor_throws = None, app_exists = True, public_exists = False,
      mkdir_throws = None, copy_throws = None, layout_exists = False,
      read_layout = Inl (JStr ''ENOENT''), write_layout_throws = None\<rparr>"

definition readonly_app :: filesystem where
  "readonly_app = bare_app\<lparr>public_exists := True, copy_throws := Some (JStr ''EACCES'')\<rparr>"

section \<open>The intercepting monitor, written out\<close>

lemma intercepting_monitor_eq:
  "intercepting_monitor =
     \<lparr>isInitialized = False,
      originalConsole = Some \<lparr>c_log = PageFn 0, c_warn = PageFn 1, c_error = PageFn 2,
                               c_info = PageFn 3, c_debug = PageFn 4\<rparr>,
      lastErrorHash = [],
      console = \<lparr>c_log = PageFn 0, c_warn = PageFn 1, c_error = Interceptor,
                  c_info = PageFn 3, c_debug = PageFn 4\<rparr>,
      onerror = Some (PageHandler 0), onunhandledrejection = None,
      observer_connected = False, cleanupErrorMonitor = False\<rparr>"
  by (simp add: intercepting_monitor_def setupConsoleInterceptors_def fresh_window_def)

section \<open>Results about formatting\<close>

lemma typeof_string_iff: "typeof_string v \<longleftrightarrow> (\<exists>s. v = JStr s)"
  by (cases v) auto

lemma map_throwing_all:
  "\<forall>x\<in>set xs. \<not> isl (f x) \<Longrightarrow> map_throwing f xs = Inr (map (\<lambda>x. projr (f x)) xs)"
proof (induction xs)
  case Nil
  then show ?case by simp
next
  case (Cons x xs)
  then have "\<not> isl (f x)" by simp
  then obtain y where y: "f x = Inr y" by (cases "f x") simp_all
  from Cons have "map_throwing f xs = Inr (map (\<lambda>x. projr (f x)) xs)" by simp
  then show ?case by (simp add: y)
qed

lemma map_throwing_first:
  "\<forall>x\<in>set xs. \<not> isl (f x) \<Longrightarrow> f v = Inl e \<Longrightarrow> map_throwing f (xs @ v # rest) = Inl e"
proof (induction xs)
  case Nil
  then show ?case by simp
next
  case (Cons x xs)
  then have "\<not> isl (f x)" by simp
  then obtain y where y: "f x = Inr y" by (cases "f x") simp_all
  from Cons have "map_throwing f (xs @ v # rest) = Inl e" by simp
  then show ?case by (simp add: y)
qed

lemma format_nonstring:
  "\<not> typeof_string template \<Longrightarrow>
   formatMessageWithPlaceholders nh template args
     = (case map_throwing js_String (template # args) of
          Inl e \<Rightarrow> Inl e
        | Inr strings \<Rightarrow> Inr (join_strings '' '' strings))"
  by (cases template) (simp_all add: formatMessageWithPlaceholders_def)

text \<open>
  Claim C5, as the code has it. The template \<^verbatim>\<open>"Value: %s, Count: %d"\<close> with the
  arguments \<^verbatim>\<open>"foo"\<close> and \<^verbatim>\<open>"3"\<close> formats to \<^verbatim>\<open>"Value: foo, Count: 3"\<close>,
  whatever the engine does on the strings the model leaves to it. When the first argument
  is not a string and \<^verbatim>\<open>String\<close> returns on every argument, the first included, the
  result is those strings joined by single spaces. When \<^verbatim>\<open>String\<close> throws on one of
  them, the call throws the exception of the first that does.
\<close>

theorem formatMessageWithPlaceholders_spec:
  "formatMessageWithPlaceholders nh (JStr ''Value: %s, Count: %d'') [JStr ''foo'', JStr ''3'']
     = Inr ''Value: foo, Count: 3''
   \<and> (\<not> typeof_string template \<longrightarrow>
        (\<forall>v\<in>set (template # args). \<not> isl (js_String v)) \<longrightarrow>
        formatMessageWithPlaceholders nh template args
          = Inr (join_strings '' '' (map (\<lambda>v. projr (js_String v)) (template # args))))
   \<and> (\<not> typeof_string template \<longrightarrow>
        template # args = converted @ v # rest \<longrightarrow>
        (\<forall>u\<in>set converted. \<not> isl (js_String u)) \<longrightarrow>
        js_String v = Inl e \<longrightarrow>
        formatMessageWithPlaceholders nh template args = Inl e)"
proof (intro conjI impI)
  show "formatMessageWithPlaceholders nh (JStr ''Value: %s, Count: %d'') [JStr ''foo'', JStr ''3'']
     = Inr ''Value: foo, Count: 3''"
    by (simp add: formatMessageWithPlaceholders_def placeholder_def arg_at_def
        parseInt_toString_def short_decimal_def is_digit_def canonical_decimal_def)
next
  assume "\<not> typeof_string template" and "\<forall>v\<in>set (template # args). \<not> isl (js_String v)"
  then show "formatMessageWithPlaceholders nh template args
          = Inr (join_strings '' '' (map (\<lambda>v. projr (js_String v)) (template # args)))"
    using map_throwing_all[of "template # args" js_String] by (simp add: format_nonstring)
next
  assume "\<not> typeof_string template" and "template # args = converted @ v # rest"
    and "\<forall>u\<in>set converted. \<not> isl (js_String u)" and "js_String v = Inl e"
  then show "formatMessageWithPlaceholders nh template args = Inl e"
    using map_throwing_first[of converted js_String v e rest] by (simp add: format_nonstring)
qed

theorem formatMessageWithPlaceholders_throws:
  "\<not> typeof_string null_proto
   \<and> formatMessageWithPlaceholders plain_host null_proto [] = Inl conversion_error"
  by (simp add: formatMessageWithPlaceholders_def null_proto_def)

theorem formatMessageWithPlaceholders_spec_witness:
  "\<not> typeof_string JNull
   \<and> formatMessageWithPlaceholders plain_host JNull [JStr ''a'', JUndefined]
      = Inr ''null a undefined''
   \<and> js_String null_proto = Inl conversion_error
   \<and> formatMessageWithPlaceholders plain_host JNull [JStr ''a'', null_proto, JUndefined]
      = Inl conversion_error"
proof -
  have n: "\<not> typeof_string JNull" by simp
  have a: "\<forall>v\<in>set (JNull # [JStr ''a'', JUndefined]). \<not> isl (js_String v)" by simp
  have r1: "formatMessageWithPlaceholders plain_host JNull [JStr ''a'', JUndefined]
      = Inr ''null a undefined''"
    using formatMessageWithPlaceholders_spec[where nh=plain_host and template=JNull
        and args="[JStr ''a'', JUndefined]", THEN conjunct2, THEN conjunct1, THEN mp, OF n,
        THEN mp, OF a]
    by simp
  have s: "js_String null_proto = Inl conversion_error" by (simp add: null_proto_def)
  have p: "JNull # [JStr ''a'', null_proto, JUndefined] = [JNull, JStr ''a''] @ null_proto # [JUndefined]"
    by simp
  have c: "\<forall>u\<in>set [JNull, JStr ''a'']. \<not> isl (js_String u)" by simp
  have r2: "formatMessageWithPlaceholders plain_host JNull [JStr ''a'', null_proto, JUndefined]
      = Inl conversion_error"
    using formatMessageWithPlaceholders_spec[where nh=plain_host and template=JNull
        and args="[JStr ''a'', null_proto, JUndefined]" and converted="[JNull, JStr ''a'']"
        and v=null_proto and rest="[JUndefined]" and e=conversion_error,
        THEN conjunct2, THEN conjunct2, THEN mp, OF n, THEN mp, OF p, THEN mp, OF c,
        THEN mp, OF s] .
  show ?thesis by (rule conjI[OF n conjI[OF r1 conjI[OF s r2]]])
qed

section \<open>Results about the wait for the header\<close>

lemma check_stop: "shadow k \<noteq> None \<or> count \<le> 0 \<Longrightarrow> check shadow delay k count = (Inr (shadow k), [QueryDiv])"
  by (subst check.simps) (simp add: Let_def)

lemma check_retry:
  "shadow k = None \<Longrightarrow> 0 < count \<Longrightarrow>
   check shadow delay k count = prepend [QueryDiv, Timeout delay] (check shadow delay (Suc k) (count - 1))"
  by (subst check.simps) (simp add: Let_def)

lemma queries_poll_trace: "queries (poll_trace j d) = Suc j"
  by (induction j) (simp_all add: poll_trace_def)

lemma waited_poll_trace: "waited (poll_trace j d) = j * d"
  by (induction j) (simp_all add: poll_trace_def)

lemma check_first_hit:
  "\<forall>i<j. shadow (k + i) = None \<Longrightarrow> shadow (k + j) \<noteq> None \<Longrightarrow> j \<le> n \<Longrightarrow>
   check shadow delay k (int n) = (Inr (shadow (k + j)), poll_trace j delay)"
proof (induction j arbitrary: k n)
  case 0
  then show ?case by (simp add: check_stop poll_trace_def)
next
  case (Suc j)
  from Suc.prems have none: "shadow k = None" by (metis add.right_neutral zero_less_Suc)
  from Suc.prems obtain n' where n: "n = Suc n'" by (cases n) auto
  have "\<forall>i<j. shadow (Suc k + i) = None" using Suc.prems(1) by (metis Suc_less_eq add_Suc_shift)
  moreover have "shadow (Suc k + j) \<noteq> None" using Suc.prems(2) by simp
  moreover have "j \<le> n'" using Suc.prems(3) n by simp
  ultimately have ih: "check shadow delay (Suc k) (int n') = (Inr (shadow (Suc k + j)), poll_trace j delay)"
    by (rule Suc.IH)
  have "check shadow delay k (int n) = prepend [QueryDiv, Timeout delay] (check shadow delay (Suc k) (int n - 1))"
    using none n by (simp add: check_retry)
  also have "int n - 1 = int n'" using n by simp
  finally show ?case using ih by (simp add: prepend_def poll_trace_def)
qed

lemma check_no_hit:
  "\<forall>i\<le>n. shadow (k + i) = None \<Longrightarrow>
   check shadow delay k (int n) = (Inr None, poll_trace n delay)"
proof (induction n arbitrary: k)
  case 0
  then show ?case using check_stop[of shadow k 0 delay] by (simp add: poll_trace_def)
next
  case (Suc n)
  have none: "shadow k = None" using Suc.prems by (metis add.right_neutral le0)
  have "\<forall>i\<le>n. shadow (Suc k + i) = None" using Suc.prems by (metis Suc_le_mono add_Suc_shift)
  then have ih: "check shadow delay (Suc k) (int n) = (Inr None, poll_trace n delay)" by (rule Suc.IH)
  have "check shadow delay k (int (Suc n)) = prepend [QueryDiv, Timeout delay] (check shadow delay (Suc k) (int (Suc n) - 1))"
    using none by (simp add: check_retry)
  also have "int (Suc n) - 1 = int n" by simp
  finally show ?case using ih by (simp add: prepend_def poll_trace_def)
qed



lemma waitForHeaderElement_cases:
  "(\<exists>j\<le>n. (\<forall>i<j. shadow i = None) \<and> shadow j \<noteq> None \<and>
       waitForHeaderElement shadow (int n) d = (Inr (shadow j), poll_trace j d))
   \<or> ((\<forall>i\<le>n. shadow i = None) \<and>
       waitForHeaderElement shadow (int n) d = (Inr None, poll_trace n d))"
proof (cases "\<exists>j\<le>n. shadow j \<noteq> None")
  case True
  define j where "j = (LEAST j. j \<le> n \<and> shadow j \<noteq> None)"
  from True have a: "j \<le> n \<and> shadow j \<noteq> None"
    unfolding j_def by (rule LeastI_ex)
  have b: "\<forall>i<j. shadow i = None"
  proof (intro allI impI)
    fix i assume "i < j"
    then have "\<not> (i \<le> n \<and> shadow i \<noteq> None)" unfolding j_def by (rule not_less_Least)
    moreover have "i \<le> n" using \<open>i < j\<close> a by simp
    ultimately show "shadow i = None" by simp
  qed
  have "check shadow d 0 (int n) = (Inr (shadow (0 + j)), poll_trace j d)"
    by (rule check_first_hit) (use a b in simp_all)
  then show ?thesis using a b by (auto simp: waitForHeaderElement_def)
next
  case False
  then have none: "\<forall>i\<le>n. shadow (0 + i) = None" by simp
  have "check shadow d 0 (int n) = (Inr None, poll_trace n d)"
    using none by (rule check_no_hit)
  then show ?thesis using none by (simp add: waitForHeaderElement_def)
qed


text \<open>
  Claim C8, as the code has it. The wait with the default ten retries and 200 ms delay
  always resolves. It queries at once and then after each timeout, so it makes at most
  eleven queries and ten timeouts: the time waited is 200 ms for every query after the
  first, at most 2000 ms. It stops at the first query that finds an element and resolves
  with it; when none of the eleven queries finds one it resolves with \<^verbatim>\<open>null\<close>.
\<close>

theorem waitForHeaderElement_bounded:
  "(\<exists>el. fst (waitForHeaderElement shadow 10 200) = Inr el)
   \<and> queries (snd (waitForHeaderElement shadow 10 200)) \<le> 11
   \<and> waited (snd (waitForHeaderElement shadow 10 200))
       = 200 * (queries (snd (waitForHeaderElement shadow 10 200)) - 1)
   \<and> waited (snd (waitForHeaderElement shadow 10 200)) \<le> 2000
   \<and> (\<forall>j\<le>10. shadow j \<noteq> None \<longrightarrow> (\<forall>i<j. shadow i = None) \<longrightarrow>
         fst (waitForHeaderElement shadow 10 200) = Inr (shadow j)
         \<and> queries (snd (waitForHeaderElement shadow 10 200)) = j + 1)
   \<and> ((\<forall>j\<le>10. shadow j = None) \<longrightarrow>
         fst (waitForHeaderElement shadow 10 200) = Inr None
         \<and> queries (snd (waitForHeaderElement shadow 10 200)) = 11
         \<and> waited (snd (waitForHeaderElement shadow 10 200)) = 2000)"
proof -
  let ?w = "waitForHeaderElement shadow 10 200"
  have cases: "(\<exists>j\<le>10. (\<forall>i<j. shadow i = None) \<and> shadow j \<noteq> None \<and> ?w = (Inr (shadow j), poll_trace j 200))
     \<or> ((\<forall>i\<le>10. shadow i = None) \<and> ?w = (Inr None, poll_trace 10 200))"
    using waitForHeaderElement_cases[of 10 shadow 200] by simp
  show ?thesis
  proof (rule disjE[OF cases])
    assume "\<exists>j\<le>10. (\<forall>i<j. shadow i = None) \<and> shadow j \<noteq> None \<and> ?w = (Inr (shadow j), poll_trace j 200)"
    then obtain j where j: "j \<le> 10" and first: "\<forall>i<j. shadow i = None"
      and hit: "shadow j \<noteq> None" and eq: "?w = (Inr (shadow j), poll_trace j 200)"
      by auto
    have c1: "\<exists>el. fst ?w = Inr el" by (simp add: eq)
    have c2: "queries (snd ?w) \<le> 11" using j by (simp add: eq queries_poll_trace)
    have c3: "waited (snd ?w) = 200 * (queries (snd ?w) - 1)"
      by (simp add: eq queries_poll_trace waited_poll_trace)
    have c4: "waited (snd ?w) \<le> 2000" using j by (simp add: eq waited_poll_trace)
    have c5: "\<forall>j'\<le>10. shadow j' \<noteq> None \<longrightarrow> (\<forall>i<j'. shadow i = None) \<longrightarrow>
         fst ?w = Inr (shadow j') \<and> queries (snd ?w) = j' + 1"
    proof (intro allI impI)
      fix j' assume "j' \<le> 10" and h': "shadow j' \<noteq> None" and f': "\<forall>i<j'. shadow i = None"
      have "\<not> j' < j" using first h' by auto
      moreover have "\<not> j < j'" using f' hit by auto
      ultimately have "j' = j" by simp
      then show "fst ?w = Inr (shadow j') \<and> queries (snd ?w) = j' + 1"
        by (simp add: eq queries_poll_trace)
    qed
    have c6: "(\<forall>j\<le>10. shadow j = None) \<longrightarrow>
         fst ?w = Inr None \<and> queries (snd ?w) = 11 \<and> waited (snd ?w) = 2000"
      using j hit by auto
    show ?thesis by (intro conjI) (fact c1 c2 c3 c4 c5 c6)+
  next
    assume a: "(\<forall>i\<le>10. shadow i = None) \<and> ?w = (Inr None, poll_trace 10 200)"
    then have eq: "?w = (Inr None, poll_trace 10 200)" and none: "\<forall>i\<le>10. shadow i = None"
      by simp_all
    have c1: "\<exists>el. fst ?w = Inr el" by (simp add: eq)
    have c2: "queries (snd ?w) \<le> 11" by (simp add: eq queries_poll_trace)
    have c3: "waited (snd ?w) = 200 * (queries (snd ?w) - 1)"
      by (simp add: eq queries_poll_trace waited_poll_trace)
    have c4: "waited (snd ?w) \<le> 2000" by (simp add: eq waited_poll_trace)
    have c5: "\<forall>j'\<le>10. shadow j' \<noteq> None \<longrightarrow> (\<forall>i<j'. shadow i = None) \<longrightarrow>
         fst ?w = Inr (shadow j') \<and> queries (snd ?w) = j' + 1"
      using none by auto
    have c6: "(\<forall>j\<le>10. shadow j = None) \<longrightarrow>
         fst ?w = Inr None \<and> queries (snd ?w) = 11 \<and> waited (snd ?w) = 2000"
      by (simp add: eq queries_poll_trace waited_poll_trace)
    show ?thesis by (intro conjI) (fact c1 c2 c3 c4 c5 c6)+
  qed
qed

theorem waitForHeaderElement_eleventh_query:
  "\<not> queries (snd (waitForHeaderElement late_header 10 200)) \<le> 10
   \<and> fst (waitForHeaderElement late_header 10 200) = Inr (Some (Element ''<div></div>''))"
  by (simp add: waitForHeaderElement_def check_retry check_stop late_header_def prepend_def)

theorem waitForHeaderElement_bounded_witness:
  "(2::nat) \<le> 10 \<and> early_header 2 \<noteq> None \<and> early_header 0 = None \<and> early_header 1 = None
   \<and> fst (waitForHeaderElement early_header 10 200) = Inr (early_header 2)
   \<and> queries (snd (waitForHeaderElement early_header 10 200)) = 3
   \<and> waited (snd (waitForHeaderElement early_header 10 200)) = 400
   \<and> fst (waitForHeaderElement absent_header 10 200) = Inr None
   \<and> queries (snd (waitForHeaderElement absent_header 10 200)) = 11
   \<and> waited (snd (waitForHeaderElement absent_header 10 200)) = 2000"
proof -
  have a: "(2::nat) \<le> 10" by simp
  have b: "early_header 2 \<noteq> None" by (simp add: early_header_def)
  have c: "\<forall>i<2. early_header i = None" by (simp add: early_header_def)
  note bnd = waitForHeaderElement_bounded[of early_header]
  have hit: "fst (waitForHeaderElement early_header 10 200) = Inr (early_header 2)
      \<and> queries (snd (waitForHeaderElement early_header 10 200)) = 2 + 1"
    using bnd[THEN conjunct2, THEN conjunct2, THEN conjunct2, THEN conjunct2, THEN conjunct1,
        rule_format, OF a b] c by simp
  have w: "waited (snd (waitForHeaderElement early_header 10 200))
       = 200 * (queries (snd (waitForHeaderElement early_header 10 200)) - 1)"
    using bnd[THEN conjunct2, THEN conjunct2, THEN conjunct1] .
  have w400: "waited (snd (waitForHeaderElement early_header 10 200)) = 400"
    using w hit by simp
  have none: "\<forall>j\<le>10. absent_header j = None" by (simp add: absent_header_def)
  have miss: "fst (waitForHeaderElement absent_header 10 200) = Inr None
      \<and> queries (snd (waitForHeaderElement absent_header 10 200)) = 11
      \<and> waited (snd (waitForHeaderElement absent_header 10 200)) = 2000"
    using waitForHeaderElement_bounded[of absent_header, THEN conjunct2, THEN conjunct2,
        THEN conjunct2, THEN conjunct2, THEN conjunct2] none
    by (rule mp)
  from a b hit w400 miss show ?thesis by (simp add: early_header_def)
qed

section \<open>Results about delivery and the overlay scan\<close>

lemma fst_prepend [simp]: "fst (prepend t m) = fst m"
  by (simp add: prepend_def)

lemma snd_prepend [simp]: "snd (prepend t m) = t @ snd m"
  by (simp add: prepend_def)

lemma sent_events_append [simp]: "sent_events (a @ b) = sent_events a @ sent_events b"
  by (induction a rule: sent_events.induct) simp_all

lemma posted_append [simp]: "posted (a @ b) = posted a @ posted b"
  by (induction a rule: posted.induct) simp_all

lemma sent_events_poll_trace [simp]: "sent_events (poll_trace j d) = []"
  by (induction j) (simp_all add: poll_trace_def)

lemma posted_poll_trace [simp]: "posted (poll_trace j d) = []"
  by (induction j) (simp_all add: poll_trace_def)

lemma sendToWebhook_fst: "fst (sendToWebhook pg data) = Inr ()"
  by (simp add: sendToWebhook_def try_catch_def split: option.splits)

lemma sendToWebhook_sent: "sent_events (snd (sendToWebhook pg data)) = [data]"
  by (simp add: sendToWebhook_def try_catch_def split: option.splits)

lemma sendToWebhook_posted:
  "posted (snd (sendToWebhook pg data)) =
     (if delivered pg data then [\<lparr>source = ''superengineer'', payload = data\<rparr>] else [])"
  by (simp add: sendToWebhook_def try_catch_def delivered_def split: option.splits)

lemma portal_cases:
  "(shadowRoot p = None \<and> header_of p = None)
   \<or> (\<exists>shadow j. shadowRoot p = Some shadow
         \<and> waitForHeaderElement shadow 10 200 = (Inr (header_of p), poll_trace j 200))"
proof (cases "shadowRoot p")
  case None
  then show ?thesis by (simp add: header_of_def)
next
  case (Some shadow)
  have "\<exists>r j. waitForHeaderElement shadow 10 200 = (Inr r, poll_trace j 200)"
    using waitForHeaderElement_cases[of 10 shadow 200] by auto
  then obtain r j where "waitForHeaderElement shadow 10 200 = (Inr r, poll_trace j 200)"
    by auto
  then show ?thesis using Some by (auto simp: header_of_def)
qed

lemma scan_no_shadow:
  "shadowRoot p = None \<Longrightarrow> scan_portals pg (p # ps) b = scan_portals pg ps b"
  by simp

lemma scan_no_header:
  "shadowRoot p = Some shadow \<Longrightarrow> waitForHeaderElement shadow 10 200 = (Inr None, tr) \<Longrightarrow>
   scan_portals pg (p # ps) b = prepend tr (scan_portals pg ps b)"
  by simp

lemma scan_header:
  assumes "shadowRoot p = Some shadow"
    and "waitForHeaderElement shadow 10 200 = (Inr (Some h), tr)"
  shows "scan_portals pg (p # ps) b =
     (Inr True,
      tr @ [Log ''Found potential Next.js error element'']
         @ snd (sendToWebhook pg (DomEvent (outerXML h) (now pg)))
         @ [Log ''DOM error sent to webhook''])"
proof -
  obtain tr' where "sendToWebhook pg (DomEvent (outerXML h) (now pg)) = (Inr (), tr')"
    using sendToWebhook_fst[where pg=pg and data="DomEvent (outerXML h) (now pg)"]
    by (cases "sendToWebhook pg (DomEvent (outerXML h) (now pg))") simp
  then show ?thesis using assms by simp
qed

lemma scan_portals_result:
  "fst (scan_portals pg ps b) = Inr (case found_header ps of None \<Rightarrow> b | Some h \<Rightarrow> True)
   \<and> sent_events (snd (scan_portals pg ps b))
       = (case found_header ps of None \<Rightarrow> [] | Some h \<Rightarrow> [DomEvent (outerXML h) (now pg)])
   \<and> posted (snd (scan_portals pg ps b))
       = (case found_header ps of
            None \<Rightarrow> []
          | Some h \<Rightarrow>
              if delivered pg (DomEvent (outerXML h) (now pg))
              then [\<lparr>source = ''superengineer'', payload = DomEvent (outerXML h) (now pg)\<rparr>]
              else [])"
proof (induction ps)
  case Nil
  then show ?case by simp
next
  case (Cons p ps)
  from portal_cases[of p] show ?case
  proof (elim disjE conjE exE)
    assume "shadowRoot p = None" "header_of p = None"
    then show ?thesis using Cons.IH by (simp add: scan_no_shadow)
  next
    fix shadow j
    assume sh: "shadowRoot p = Some shadow"
      and w: "waitForHeaderElement shadow 10 200 = (Inr (header_of p), poll_trace j 200)"
    show ?thesis
    proof (cases "header_of p")
      case None
      then show ?thesis using Cons.IH scan_no_header[where tr="poll_trace j 200" and pg=pg and ps=ps and b=b, OF sh] w
        by simp
    next
      case (Some h)
      then show ?thesis using scan_header[where tr="poll_trace j 200" and pg=pg and ps=ps and b=b, OF sh] w
        by (simp add: sendToWebhook_sent sendToWebhook_posted)
    qed
  qed
qed

lemma scan_portals_stops:
  "header_of q \<noteq> None \<Longrightarrow>
   scan_portals pg (ps @ q # rest) b = scan_portals pg (ps @ [q]) b"
proof (induction ps arbitrary: b)
  case Nil
  from portal_cases[of q] Nil obtain shadow j where
    sh: "shadowRoot q = Some shadow"
    and w: "waitForHeaderElement shadow 10 200 = (Inr (header_of q), poll_trace j 200)"
    by auto
  from Nil obtain h where h: "header_of q = Some h" by auto
  show ?case
    using scan_header[where tr="poll_trace j 200" and pg=pg and ps=rest and b=b, OF sh]
      scan_header[where tr="poll_trace j 200" and pg=pg and ps="[]" and b=b, OF sh] w h by simp
next
  case (Cons p ps)
  from portal_cases[of p] show ?case
  proof (elim disjE conjE exE)
    assume "shadowRoot p = None" "header_of p = None"
    then show ?thesis using Cons.IH[OF Cons.prems] by (simp add: scan_no_shadow)
  next
    fix shadow j
    assume sh: "shadowRoot p = Some shadow"
      and w: "waitForHeaderElement shadow 10 200 = (Inr (header_of p), poll_trace j 200)"
    show ?thesis
    proof (cases "header_of p")
      case None
      then show ?thesis
        using Cons.IH[OF Cons.prems, of b] w
          scan_no_header[where tr="poll_trace j 200" and pg=pg and ps="ps @ q # rest" and b=b, OF sh]
          scan_no_header[where tr="poll_trace j 200" and pg=pg and ps="ps @ [q]" and b=b, OF sh]
        by simp
    next
      case (Some h)
      then show ?thesis
        using w scan_header[where tr="poll_trace j 200" and pg=pg and ps="ps @ q # rest" and b=b, OF sh]
          scan_header[where tr="poll_trace j 200" and pg=pg and ps="ps @ [q]" and b=b, OF sh]
        by simp
    qed
  qed
qed

lemma found_header_None_iff: "found_header ps = None \<longleftrightarrow> (\<forall>p\<in>set ps. header_of p = None)"
  by (induction ps) (auto split: option.splits)

text \<open>
  Claim C7. \<^verbatim>\<open>sendToWebhook\<close> never throws to its caller. Whatever it posts is the
  event wrapped with the source tag \<^verbatim>\<open>superengineer\<close>, and it posts only when the
  window has a distinct parent. Without one it posts nothing and warns. With one, the
  envelope is posted once when \<^verbatim>\<open>postMessage\<close> returns; when \<^verbatim>\<open>postMessage\<close> throws,
  nothing is posted and the exception is passed to \<^verbatim>\<open>console.error\<close>.
\<close>

theorem sendToWebhook_delivery:
  "fst (sendToWebhook pg data) = Inr ()
   \<and> (\<forall>env\<in>set (posted (snd (sendToWebhook pg data))).
         source env = ''superengineer'' \<and> payload env = data)
   \<and> (posted (snd (sendToWebhook pg data)) \<noteq> [] \<longrightarrow> has_parent pg)
   \<and> (\<not> has_parent pg \<longrightarrow>
         posted (snd (sendToWebhook pg data)) = []
         \<and> Warn ''Parent window not available for postMessage.'' \<in> set (snd (sendToWebhook pg data)))
   \<and> (has_parent pg \<longrightarrow>
         postMessage_throws pg \<lparr>source = ''superengineer'', payload = data\<rparr> = None \<longrightarrow>
         posted (snd (sendToWebhook pg data)) = [\<lparr>source = ''superengineer'', payload = data\<rparr>])
   \<and> (has_parent pg \<longrightarrow>
         postMessage_throws pg \<lparr>source = ''superengineer'', payload = data\<rparr> = Some err \<longrightarrow>
         posted (snd (sendToWebhook pg data)) = []
         \<and> ErrorCall [JStr ''Failed to send message to parent:'', err]
             \<in> set (snd (sendToWebhook pg data)))"
proof (intro conjI)
  show "fst (sendToWebhook pg data) = Inr ()" by (rule sendToWebhook_fst)
  show "\<forall>env\<in>set (posted (snd (sendToWebhook pg data))).
         source env = ''superengineer'' \<and> payload env = data"
    by (simp add: sendToWebhook_posted)
  show "posted (snd (sendToWebhook pg data)) \<noteq> [] \<longrightarrow> has_parent pg"
    by (simp add: sendToWebhook_posted delivered_def)
  show "\<not> has_parent pg \<longrightarrow>
         posted (snd (sendToWebhook pg data)) = []
         \<and> Warn ''Parent window not available for postMessage.'' \<in> set (snd (sendToWebhook pg data))"
    by (simp add: sendToWebhook_def try_catch_def)
  show "has_parent pg \<longrightarrow>
         postMessage_throws pg \<lparr>source = ''superengineer'', payload = data\<rparr> = None \<longrightarrow>
         posted (snd (sendToWebhook pg data)) = [\<lparr>source = ''superengineer'', payload = data\<rparr>]"
    by (simp add: sendToWebhook_posted delivered_def)
  show "has_parent pg \<longrightarrow>
         postMessage_throws pg \<lparr>source = ''superengineer'', payload = data\<rparr> = Some err \<longrightarrow>
         posted (snd (sendToWebhook pg data)) = []
         \<and> ErrorCall [JStr ''Failed to send message to parent:'', err]
             \<in> set (snd (sendToWebhook pg data))"
    by (simp add: sendToWebhook_def try_catch_def)
qed

theorem sendToWebhook_delivery_witness:
  "has_parent plain_page
   \<and> postMessage_throws plain_page
        \<lparr>source = ''superengineer'', payload = DomEvent ''<div></div>'' example_time\<rparr> = None
   \<and> posted (snd (sendToWebhook plain_page (DomEvent ''<div></div>'' example_time)))
       = [\<lparr>source = ''superengineer'', payload = DomEvent ''<div></div>'' example_time\<rparr>]
   \<and> \<not> has_parent top_page
   \<and> posted (snd (sendToWebhook top_page (DomEvent ''<div></div>'' example_time))) = []
   \<and> has_parent blocked_page
   \<and> postMessage_throws blocked_page
        \<lparr>source = ''superengineer'', payload = DomEvent ''<div></div>'' example_time\<rparr>
       = Some (JStr ''DataCloneError'')
   \<and> fst (sendToWebhook blocked_page (DomEvent ''<div></div>'' example_time)) = Inr ()
   \<and> posted (snd (sendToWebhook blocked_page (DomEvent ''<div></div>'' example_time))) = []"
  using sendToWebhook_delivery[of plain_page "DomEvent ''<div></div>'' example_time"]
    sendToWebhook_delivery[of top_page "DomEvent ''<div></div>'' example_time"]
    sendToWebhook_delivery[of blocked_page "DomEvent ''<div></div>'' example_time"
      "JStr ''DataCloneError''"]
  by (simp add: plain_page_def top_page_def blocked_page_def)

lemma sendToWebhook_portals [simp]:
  "sendToWebhook (pg\<lparr>portals := x\<rparr>) data = sendToWebhook pg data"
  by (simp add: sendToWebhook_def)

lemma scan_portals_page [simp]:
  "scan_portals (pg\<lparr>portals := x\<rparr>) ps b = scan_portals pg ps b"
  by (induction ps arbitrary: b) (simp_all split: option.splits prod.splits sum.splits)

lemma checkDomErrors_result:
  "fst (checkDomErrors pg) = Inr (found_header (portals pg) \<noteq> None)
   \<and> sent_events (snd (checkDomErrors pg))
       = (case found_header (portals pg) of
            None \<Rightarrow> []
          | Some h \<Rightarrow> [DomEvent (outerXML h) (now pg)])
   \<and> posted (snd (checkDomErrors pg))
       = (case found_header (portals pg) of
            None \<Rightarrow> []
          | Some h \<Rightarrow>
              if delivered pg (DomEvent (outerXML h) (now pg))
              then [\<lparr>source = ''superengineer'', payload = DomEvent (outerXML h) (now pg)\<rparr>]
              else [])"
  using scan_portals_result[of pg "portals pg" False]
  by (simp add: checkDomErrors_def split: option.splits)

lemma wait_early_header:
  "waitForHeaderElement early_header 10 200
     = (Inr (Some (Element ''<div></div>'')), poll_trace 2 200)"
  by (simp add: waitForHeaderElement_def check_retry check_stop early_header_def prepend_def
      poll_trace_def numeral_2_eq_2)

lemma header_of_early [simp]:
  "header_of \<lparr>shadowRoot = Some early_header\<rparr> = Some (Element ''<div></div>'')"
  by (simp add: header_of_def wait_early_header)

lemma header_of_no_shadow [simp]: "header_of \<lparr>shadowRoot = None\<rparr> = None"
  by (simp add: header_of_def)

text \<open>
  Claim C4. One run of \<^verbatim>\<open>checkDomErrors\<close> (\<^verbatim>\<open>checkForErrors\<close> of the API) hands
  at most one event to \<^verbatim>\<open>sendToWebhook\<close>, a DOM event, and posts at most one
  message, however many portals the document has. It returns \<^verbatim>\<open>true\<close> exactly when
  it sent that event, which is exactly when some portal has a header. It stops at the
  first portal it reports: the portals after a portal with a header do not change the
  run.
\<close>

theorem checkDomErrors_reports_at_most_once:
  "length (sent_events (snd (checkDomErrors pg))) \<le> 1
   \<and> (\<forall>d\<in>set (sent_events (snd (checkDomErrors pg))). event_type d = ''dom'')
   \<and> length (posted (snd (checkDomErrors pg))) \<le> 1
   \<and> fst (checkDomErrors pg) = Inr (sent_events (snd (checkDomErrors pg)) \<noteq> [])
   \<and> fst (checkDomErrors pg) = Inr (\<exists>p\<in>set (portals pg). header_of p \<noteq> None)
   \<and> (header_of q \<noteq> None \<longrightarrow>
         checkDomErrors (pg\<lparr>portals := ps @ q # rest\<rparr>)
           = checkDomErrors (pg\<lparr>portals := ps @ [q]\<rparr>))"
proof (intro conjI)
  note r = checkDomErrors_result[of pg]
  show "length (sent_events (snd (checkDomErrors pg))) \<le> 1"
    using r by (simp split: option.splits)
  show "\<forall>d\<in>set (sent_events (snd (checkDomErrors pg))). event_type d = ''dom''"
    using r by (simp split: option.splits)
  show "length (posted (snd (checkDomErrors pg))) \<le> 1"
    using r by (simp split: option.splits)
  show "fst (checkDomErrors pg) = Inr (sent_events (snd (checkDomErrors pg)) \<noteq> [])"
    using r by (simp split: option.splits)
  show "fst (checkDomErrors pg) = Inr (\<exists>p\<in>set (portals pg). header_of p \<noteq> None)"
    using r found_header_None_iff[of "portals pg"] by simp
  show "header_of q \<noteq> None \<longrightarrow>
         checkDomErrors (pg\<lparr>portals := ps @ q # rest\<rparr>)
           = checkDomErrors (pg\<lparr>portals := ps @ [q]\<rparr>)"
  proof
    assume h: "header_of q \<noteq> None"
    show "checkDomErrors (pg\<lparr>portals := ps @ q # rest\<rparr>)
           = checkDomErrors (pg\<lparr>portals := ps @ [q]\<rparr>)"
      using scan_portals_stops[OF h, where pg=pg and ps=ps and rest=rest and b=False]
      by (simp add: checkDomErrors_def)
  qed
qed

theorem checkDomErrors_reports_at_most_once_witness:
  "header_of \<lparr>shadowRoot = Some early_header\<rparr> \<noteq> None
   \<and> fst (checkDomErrors overlay_page) = Inr True
   \<and> checkDomErrors overlay_page
       = checkDomErrors
           (overlay_page\<lparr>portals := [\<lparr>shadowRoot = None\<rparr>, \<lparr>shadowRoot = Some early_header\<rparr>]\<rparr>)"
proof -
  have a: "header_of \<lparr>shadowRoot = Some early_header\<rparr> \<noteq> None" by simp
  have ps: "portals overlay_page = [\<lparr>shadowRoot = None\<rparr>, \<lparr>shadowRoot = Some early_header\<rparr>,
      \<lparr>shadowRoot = Some late_header\<rparr>]"
    by (simp add: overlay_page_def)
  have b: "overlay_page\<lparr>portals := [\<lparr>shadowRoot = None\<rparr>] @ \<lparr>shadowRoot = Some early_header\<rparr>
              # [\<lparr>shadowRoot = Some late_header\<rparr>]\<rparr> = overlay_page"
    by (simp add: overlay_page_def)
  note t = checkDomErrors_reports_at_most_once[of overlay_page "\<lparr>shadowRoot = Some early_header\<rparr>"
      "[\<lparr>shadowRoot = None\<rparr>]" "[\<lparr>shadowRoot = Some late_header\<rparr>]"]
  have "checkDomErrors (overlay_page\<lparr>portals := [\<lparr>shadowRoot = None\<rparr>] @ \<lparr>shadowRoot = Some early_header\<rparr>
              # [\<lparr>shadowRoot = Some late_header\<rparr>]\<rparr>)
       = checkDomErrors
           (overlay_page\<lparr>portals := [\<lparr>shadowRoot = None\<rparr>] @ [\<lparr>shadowRoot = Some early_header\<rparr>]\<rparr>)"
    using t[THEN conjunct2, THEN conjunct2, THEN conjunct2, THEN conjunct2, THEN conjunct2] a
    by (rule mp)
  then have stop: "checkDomErrors overlay_page
       = checkDomErrors
           (overlay_page\<lparr>portals := [\<lparr>shadowRoot = None\<rparr>, \<lparr>shadowRoot = Some early_header\<rparr>]\<rparr>)"
    unfolding b by simp
  have "fst (checkDomErrors overlay_page)
      = Inr (\<exists>p\<in>set (portals overlay_page). header_of p \<noteq> None)"
    using t[THEN conjunct2, THEN conjunct2, THEN conjunct2, THEN conjunct2, THEN conjunct1] .
  then have found: "fst (checkDomErrors overlay_page) = Inr True"
    unfolding ps by simp
  show ?thesis by (rule conjI[OF a conjI[OF found stop]])
qed

lemma handleConsoleError_overlay:
  assumes "found_header (portals pg) = Some h"
  shows "fst (handleConsoleError pg ''error'' message args) = Inr ()
   \<and> sent_events (snd (handleConsoleError pg ''error'' message args))
       = [DomEvent (outerXML h) (now pg)]
   \<and> posted (snd (handleConsoleError pg ''error'' message args))
       = (if delivered pg (DomEvent (outerXML h) (now pg))
          then [\<lparr>source = ''superengineer'', payload = DomEvent (outerXML h) (now pg)\<rparr>]
          else [])"
proof -
  obtain tr where c: "checkDomErrors pg = (Inr True, tr)"
    using checkDomErrors_result[of pg] assms by (cases "checkDomErrors pg") simp
  have s: "sent_events tr = [DomEvent (outerXML h) (now pg)]"
    using checkDomErrors_result[of pg] assms c by simp
  have p: "posted tr = (if delivered pg (DomEvent (outerXML h) (now pg))
          then [\<lparr>source = ''superengineer'', payload = DomEvent (outerXML h) (now pg)\<rparr>]
          else [])"
    using checkDomErrors_result[of pg] assms c by simp
  show ?thesis
    by (simp add: handleConsoleError_def c s p)
qed

lemma handleConsoleError_console:
  assumes "found_header (portals pg) = None" and "serialize_args args = Inr json"
  shows "fst (handleConsoleError pg ''error'' message args) = Inr ()
   \<and> sent_events (snd (handleConsoleError pg ''error'' message args))
       = [ConsoleEvent ''error'' message json False (now pg)]
   \<and> posted (snd (handleConsoleError pg ''error'' message args))
       = (if delivered pg (ConsoleEvent ''error'' message json False (now pg))
          then [\<lparr>source = ''superengineer'',
                 payload = ConsoleEvent ''error'' message json False (now pg)\<rparr>]
          else [])"
proof -
  obtain tr where c: "checkDomErrors pg = (Inr False, tr)"
    using checkDomErrors_result[of pg] assms(1) by (cases "checkDomErrors pg") simp
  have s: "sent_events tr = []" and p: "posted tr = []"
    using checkDomErrors_result[of pg] assms(1) c by simp_all
  show ?thesis
    by (simp add: handleConsoleError_def c s p assms(2) isServer_def sendToWebhook_fst
        sendToWebhook_sent sendToWebhook_posted)
qed

lemma handleConsoleError_rejects:
  assumes "found_header (portals pg) = None" and "serialize_args args = Inl e"
  shows "fst (handleConsoleError pg ''error'' message args) = Inl e
   \<and> sent_events (snd (handleConsoleError pg ''error'' message args)) = []
   \<and> posted (snd (handleConsoleError pg ''error'' message args)) = []"
proof -
  obtain tr where c: "checkDomErrors pg = (Inr False, tr)"
    using checkDomErrors_result[of pg] assms(1) by (cases "checkDomErrors pg") simp
  have s: "sent_events tr = []" and p: "posted tr = []"
    using checkDomErrors_result[of pg] assms(1) c by simp_all
  show ?thesis
    by (simp add: handleConsoleError_def c s p assms(2))
qed

lemma handleConsoleError_fst:
  "fst (handleConsoleError pg ''error'' message args)
     = (case found_header (portals pg) of
          Some h \<Rightarrow> Inr ()
        | None \<Rightarrow> (case serialize_args args of Inl e \<Rightarrow> Inl e | Inr json \<Rightarrow> Inr ()))"
proof (cases "found_header (portals pg)")
  case None
  show ?thesis
  proof (cases "serialize_args args")
    case (Inl e)
    then show ?thesis using handleConsoleError_rejects[OF None Inl] None by simp
  next
    case (Inr json)
    then show ?thesis using handleConsoleError_console[OF None Inr] None by simp
  qed
next
  case (Some h)
  then show ?thesis using handleConsoleError_overlay[OF Some] by simp
qed




lemma serialize_args_cyclic_bare: "serialize_args [cyclic_bare] = Inl conversion_error"
  by (simp add: serialize_args_def serialize_arg_def String_option_def cyclic_bare_def)

lemma serialize_args_boom_error:
  "serialize_args [boom_error] = Inr (''['' @ [CHR 0x22] @ ''{}'' @ [CHR 0x22] @ '']'')"
  by (simp add: serialize_args_def serialize_arg_def boom_error_def JSON_stringify_array_def
      json_quote_def json_escape_def)

lemma portals_overlay_page:
  "portals overlay_page = [\<lparr>shadowRoot = None\<rparr>, \<lparr>shadowRoot = Some early_header\<rparr>,
      \<lparr>shadowRoot = Some late_header\<rparr>]"
  by (simp add: overlay_page_def)

lemma now_overlay_page: "now overlay_page = example_time"
  by (simp add: overlay_page_def)

lemma found_header_overlay_page:
  "found_header (portals overlay_page) = Some (Element ''<div></div>'')"
  by (simp add: portals_overlay_page)

lemma found_header_plain_page: "found_header (portals plain_page) = None"
  by (simp add: plain_page_def)




lemma optional_message_boom: "optional_message boom_error = Inr (JStr ''boom'')"
  by (simp add: boom_error_def)

lemma optional_message_cyclic_bare: "optional_message cyclic_bare = Inr (JStr ''m'')"
  by (simp add: cyclic_bare_def)

lemma sendErrorManually_fst:
  "fst (sendErrorManually pg error)
     = (case optional_message error of
          Inl e \<Rightarrow> ReturnsFalse
        | Inr m \<Rightarrow>
            (case (if js_truthy m then Inr m else String_value error) of
               Inl e \<Rightarrow> ReturnsFalse
             | Inr message \<Rightarrow>
                 ReturnsPromise
                   (case found_header (portals pg) of
                      Some h \<Rightarrow> Inr JUndefined
                    | None \<Rightarrow>
                        (case serialize_args [error] of
                           Inl e \<Rightarrow> Inl e
                         | Inr json \<Rightarrow> Inr JUndefined))))"
  by (simp add: sendErrorManually_def Let_def handleConsoleError_fst promise_of_def
      split: sum.splits option.splits)

text \<open>
  Claim C3, where the code departs from it. \<^verbatim>\<open>sendError\<close> takes the message from the
  \<^verbatim>\<open>message\<close> property or from \<^verbatim>\<open>String(error)\<close> and runs
  \<^verbatim>\<open>handleConsoleError\<close>, but it never returns whether a DOM error was found. It
  returns \<^verbatim>\<open>false\<close> when reading the message or converting the value throws, and
  otherwise the promise of \<^verbatim>\<open>handleConsoleError\<close>, which is fulfilled with
  \<^verbatim>\<open>undefined\<close> both when the overlay's DOM event was sent and when the console event
  was sent, and is rejected when the argument cannot be serialized.
\<close>

theorem sendError_result_ignores_overlay:
  "fst (sendErrorManually pg error)
     = (case optional_message error of
          Inl e \<Rightarrow> ReturnsFalse
        | Inr m \<Rightarrow>
            (case (if js_truthy m then Inr m else String_value error) of
               Inl e \<Rightarrow> ReturnsFalse
             | Inr message \<Rightarrow>
                 ReturnsPromise
                   (case found_header (portals pg) of
                      Some h \<Rightarrow> Inr JUndefined
                    | None \<Rightarrow>
                        (case serialize_args [error] of
                           Inl e \<Rightarrow> Inl e
                         | Inr json \<Rightarrow> Inr JUndefined))))
   \<and> fst (sendErrorManually overlay_page boom_error) = ReturnsPromise (Inr JUndefined)
   \<and> sent_events (snd (sendErrorManually overlay_page boom_error))
       = [DomEvent ''<div></div>'' example_time]
   \<and> fst (sendErrorManually plain_page boom_error) = ReturnsPromise (Inr JUndefined)
   \<and> sent_events (snd (sendErrorManually plain_page boom_error))
       = [ConsoleEvent ''error'' (JStr ''boom'')
            (''['' @ [CHR 0x22] @ ''{}'' @ [CHR 0x22] @ '']'') False example_time]
   \<and> fst (sendErrorManually plain_page null_proto) = ReturnsFalse
   \<and> fst (sendErrorManually plain_page cyclic_bare) = ReturnsPromise (Inl conversion_error)"
proof (intro conjI)
  show "fst (sendErrorManually pg error)
     = (case optional_message error of
          Inl e \<Rightarrow> ReturnsFalse
        | Inr m \<Rightarrow>
            (case (if js_truthy m then Inr m else String_value error) of
               Inl e \<Rightarrow> ReturnsFalse
             | Inr message \<Rightarrow>
                 ReturnsPromise
                   (case found_header (portals pg) of
                      Some h \<Rightarrow> Inr JUndefined
                    | None \<Rightarrow>
                        (case serialize_args [error] of
                           Inl e \<Rightarrow> Inl e
                         | Inr json \<Rightarrow> Inr JUndefined))))"
    by (rule sendErrorManually_fst)
  show "fst (sendErrorManually overlay_page boom_error) = ReturnsPromise (Inr JUndefined)"
    by (simp add: sendErrorManually_fst optional_message_boom found_header_overlay_page)
  show "sent_events (snd (sendErrorManually overlay_page boom_error))
       = [DomEvent ''<div></div>'' example_time]"
    using handleConsoleError_overlay[OF found_header_overlay_page, of "JStr ''boom''" "[boom_error]"]
    by (simp add: sendErrorManually_def Let_def optional_message_boom now_overlay_page)
  show "fst (sendErrorManually plain_page boom_error) = ReturnsPromise (Inr JUndefined)"
    by (simp add: sendErrorManually_fst optional_message_boom found_header_plain_page
        serialize_args_boom_error)
  show "sent_events (snd (sendErrorManually plain_page boom_error))
       = [ConsoleEvent ''error'' (JStr ''boom'')
            (''['' @ [CHR 0x22] @ ''{}'' @ [CHR 0x22] @ '']'') False example_time]"
    using handleConsoleError_console[OF found_header_plain_page serialize_args_boom_error,
        of "JStr ''boom''"]
    by (simp add: sendErrorManually_def Let_def optional_message_boom) (simp add: plain_page_def)
  show "fst (sendErrorManually plain_page null_proto) = ReturnsFalse"
    by (simp add: sendErrorManually_fst null_proto_def String_value_def)
  show "fst (sendErrorManually plain_page cyclic_bare) = ReturnsPromise (Inl conversion_error)"
    by (simp add: sendErrorManually_fst found_header_plain_page serialize_args_cyclic_bare
        optional_message_cyclic_bare)
qed

section \<open>Results about the life cycle of the monitor\<close>

lemma initialized_monitor_eq:
  "initialized_monitor w =
     w\<lparr>isInitialized := True, originalConsole := None, lastErrorHash := [],
       onerror := Some MonitorOnError,
       onunhandledrejection := Some MonitorOnUnhandledRejection,
       observer_connected := True, cleanupErrorMonitor := True\<rparr>"
  by (simp add: initialized_monitor_def initEnhancedErrorMonitor_def initialize_def
      setupConsoleInterceptors_def setupErrorHandlers_def setupNextJsErrorObserver_def)

lemma cleaned_up_eq:
  "cleaned_up w =
     w\<lparr>isInitialized := False, originalConsole := None, lastErrorHash := [],
       onerror := None, onunhandledrejection := None,
       observer_connected := False, cleanupErrorMonitor := True\<rparr>"
  by (simp add: cleaned_up_def initialized_monitor_eq api_cleanup_def cleanup_def)

lemma initialize_after_cleanup:
  "\<not> isInitialized m \<Longrightarrow>
   fst (initialize m) =
     m\<lparr>isInitialized := True,
       onerror := Some MonitorOnError,
       onunhandledrejection := Some MonitorOnUnhandledRejection,
       observer_connected := True, cleanupErrorMonitor := True\<rparr>"
  by (simp add: initialize_def setupConsoleInterceptors_def setupErrorHandlers_def
      setupNextJsErrorObserver_def)

text \<open>
  Claim C6. After \<^verbatim>\<open>cleanup()\<close> on an initialized monitor, the console is the one the
  monitor found, both global handlers are \<^verbatim>\<open>null\<close>, the observer is disconnected, and
  \<open>isInitialized\<close> and \<open>originalConsole\<close> are reset, so that \<^verbatim>\<open>initialize\<close> runs again
  and installs the handlers and the observer. A later \<^verbatim>\<open>console.error\<close> is one call of
  the original function and nothing else: it starts no report. Whenever original console
  functions had been saved, \<^verbatim>\<open>cleanup\<close> puts the saved \<^verbatim>\<open>error\<close> function back.
\<close>

theorem cleanup_reverses_initialization:
  "isInitialized (initialized_monitor w)
   \<and> console (cleaned_up w) = console w
   \<and> onerror (cleaned_up w) = None
   \<and> onunhandledrejection (cleaned_up w) = None
   \<and> \<not> observer_connected (cleaned_up w)
   \<and> \<not> isInitialized (cleaned_up w)
   \<and> originalConsole (cleaned_up w) = None
   \<and> isInitialized (fst (initialize (cleaned_up w)))
   \<and> observer_connected (fst (initialize (cleaned_up w)))
   \<and> onerror (fst (initialize (cleaned_up w))) = Some MonitorOnError
   \<and> onunhandledrejection (fst (initialize (cleaned_up w))) = Some MonitorOnUnhandledRejection
   \<and> (c_error (console w) = PageFn n \<longrightarrow>
         console_error nh type_error (cleaned_up w) args
           = (Inr (), cleaned_up w, [Invoke (PageFn n) args]))
   \<and> (originalConsole m = Some oc \<longrightarrow> c_error (console (fst (cleanup m))) = c_error oc)"
proof -
  have ni: "\<not> isInitialized (cleaned_up w)" by (simp add: cleaned_up_eq)
  have c: "console (cleaned_up w) = console w" by (simp add: cleaned_up_eq)
  have call: "c_error (console w) = PageFn n \<longrightarrow>
         console_error nh type_error (cleaned_up w) args
           = (Inr (), cleaned_up w, [Invoke (PageFn n) args])"
    by (simp add: console_error_def c)
  have restore: "originalConsole m = Some oc \<longrightarrow> c_error (console (fst (cleanup m))) = c_error oc"
    by (simp add: cleanup_def)
  show ?thesis
    using call restore
    by (simp add: initialize_after_cleanup[OF ni] c) (simp add: cleaned_up_eq initialized_monitor_eq)
qed

theorem cleanup_reverses_initialization_witness:
  "c_error (console fresh_window) = PageFn 2
   \<and> onerror (initialized_monitor fresh_window) = Some MonitorOnError
   \<and> onerror (cleaned_up fresh_window) = None
   \<and> console_error plain_host JNull (cleaned_up fresh_window) [JStr ''boom'']
       = (Inr (), cleaned_up fresh_window, [Invoke (PageFn 2) [JStr ''boom'']])
   \<and> originalConsole intercepting_monitor
       = Some \<lparr>c_log = PageFn 0, c_warn = PageFn 1, c_error = PageFn 2,
               c_info = PageFn 3, c_debug = PageFn 4\<rparr>
   \<and> c_error (console intercepting_monitor) = Interceptor
   \<and> c_error (console (fst (cleanup intercepting_monitor))) = PageFn 2"
proof -
  note t = cleanup_reverses_initialization[where w=fresh_window and n=2 and nh=plain_host
      and type_error=JNull and args="[JStr ''boom'']" and m=intercepting_monitor
      and oc="\<lparr>c_log = PageFn 0, c_warn = PageFn 1, c_error = PageFn 2,
               c_info = PageFn 3, c_debug = PageFn 4\<rparr>"]
  have a: "c_error (console fresh_window) = PageFn 2" by (simp add: fresh_window_def)
  have b: "originalConsole intercepting_monitor
       = Some \<lparr>c_log = PageFn 0, c_warn = PageFn 1, c_error = PageFn 2,
               c_info = PageFn 3, c_debug = PageFn 4\<rparr>"
    by (simp add: intercepting_monitor_eq)
  have c: "c_error (console intercepting_monitor) = Interceptor"
    by (simp add: intercepting_monitor_eq)
  have d: "onerror (initialized_monitor fresh_window) = Some MonitorOnError"
    by (simp add: initialized_monitor_eq)
  show ?thesis using t a b c d by simp
qed


lemma originalConsole_reinit: "originalConsole (fst (initialize (fst (cleanup m)))) = None"
  by (simp add: initialize_after_cleanup cleanup_def)





text \<open>
  Claim C2, where the code departs from it. \<^verbatim>\<open>initialize\<close> sets \<open>isInitialized\<close>
  before it calls \<^verbatim>\<open>setupConsoleInterceptors\<close>, whose first line returns when
  \<open>isInitialized\<close> is set. So initialization leaves the console as it was and saves no
  original: three \<^verbatim>\<open>console.error\<close> calls on the initialized monitor are three calls
  of the browser's function, none starts a report, not even the first, and
  \<open>lastErrorHash\<close> stays empty.
\<close>

theorem console_error_never_intercepted:
  "console (initialized_monitor w) = console w
   \<and> originalConsole (initialized_monitor w) = None
   \<and> c_error (console (initialized_monitor fresh_window)) = PageFn 2
   \<and> console_errors nh type_error (initialized_monitor fresh_window)
        [[JStr ''boom''], [JStr ''boom''], [JStr ''other'']]
       = (Inr (), initialized_monitor fresh_window,
          [Invoke (PageFn 2) [JStr ''boom''], Invoke (PageFn 2) [JStr ''boom''],
           Invoke (PageFn 2) [JStr ''other'']])
   \<and> lastErrorHash (initialized_monitor fresh_window) = []"
proof -
  have c: "c_error (console (initialized_monitor fresh_window)) = PageFn 2"
    by (simp add: initialized_monitor_eq fresh_window_def)
  have "console_errors nh type_error (initialized_monitor fresh_window)
        [[JStr ''boom''], [JStr ''boom''], [JStr ''other'']]
       = (Inr (), initialized_monitor fresh_window,
          [Invoke (PageFn 2) [JStr ''boom''], Invoke (PageFn 2) [JStr ''boom''],
           Invoke (PageFn 2) [JStr ''other'']])"
    by (simp add: console_error_def c)
  then show ?thesis using c by (simp add: initialized_monitor_eq)
qed

section \<open>Results about the injector\<close>

lemma inject_fail_status [simp]: "fst (inject_fail sofar) = 1"
  by (simp add: inject_fail_def)

lemma inject_fail_writes [simp]:
  "WriteFile p s \<in> set (snd (inject_fail sofar)) \<longleftrightarrow> WriteFile p s \<in> set sofar"
  by (simp add: inject_fail_def)

lemma setup_complete_writes [simp]: "WriteFile p s \<notin> set setup_complete"
  by (simp add: setup_complete_def)

text \<open>
  Claim C9, as the code has it. Without the application directory the injector exits with
  status 1. With it and without the layout file, when writing the monitor file, making
  the \<^verbatim>\<open>public\<close> directory (if it is missing) and copying the file all succeed, the
  injector logs that the layout was not found, writes no layout and ends with status 0;
  when one of those calls throws, it exits with status 1, again without writing a layout.
\<close>

theorem inject_exit_status:
  "(\<not> app_exists fs \<longrightarrow> fst (inject fs src config tag) = 1)
   \<and> (app_exists fs \<longrightarrow> \<not> layout_exists fs \<longrightarrow>
        write_monitor_throws fs = None \<longrightarrow>
        (\<not> public_exists fs \<longrightarrow> mkdir_throws fs = None) \<longrightarrow>
        copy_throws fs = None \<longrightarrow>
        fst (inject fs src config tag) = 0
        \<and> ConsoleLog ''layout.tsx not found at:'' \<in> set (snd (inject fs src config tag))
        \<and> (\<forall>s. WriteFile LayoutPath s \<notin> set (snd (inject fs src config tag))))
   \<and> (app_exists fs \<longrightarrow> \<not> layout_exists fs \<longrightarrow>
        (write_monitor_throws fs \<noteq> None
         \<or> (\<not> public_exists fs \<and> mkdir_throws fs \<noteq> None)
         \<or> copy_throws fs \<noteq> None) \<longrightarrow>
        fst (inject fs src config tag) = 1
        \<and> (\<forall>s. WriteFile LayoutPath s \<notin> set (snd (inject fs src config tag))))"
proof (intro conjI impI)
  assume "\<not> app_exists fs"
  then show "fst (inject fs src config tag) = 1"
    by (simp add: inject_def split: option.splits)
next
  assume "app_exists fs" "\<not> layout_exists fs" "write_monitor_throws fs = None"
    "\<not> public_exists fs \<longrightarrow> mkdir_throws fs = None" "copy_throws fs = None"
  then have r: "inject fs src config tag =
      (0, [WriteFile ErrorMonitorPath src, ConsoleLog ''error-monitor.js created successfully'']
          @ (if public_exists fs then [] else [MkDir PublicDir])
          @ [CopyFile ErrorMonitorPath AppErrorMonitorPath,
             ConsoleLog ''error-monitor.js copied to app/public folder'',
             ConsoleLog ''layout.tsx not found at:'',
             ConsoleLog ''Please manually add the error monitor script to your layout file'']
          @ setup_complete)"
    by (simp add: inject_def copy_monitor_def patch_layout_def)
  show "fst (inject fs src config tag) = 0" by (simp add: r)
  show "ConsoleLog ''layout.tsx not found at:'' \<in> set (snd (inject fs src config tag))"
    by (simp add: r)
  show "\<forall>s. WriteFile LayoutPath s \<notin> set (snd (inject fs src config tag))"
    by (simp add: r)
next
  assume a: "app_exists fs" "\<not> layout_exists fs"
    and f: "write_monitor_throws fs \<noteq> None
         \<or> (\<not> public_exists fs \<and> mkdir_throws fs \<noteq> None)
         \<or> copy_throws fs \<noteq> None"
  show "fst (inject fs src config tag) = 1"
    using a f by (auto simp: inject_def copy_monitor_def patch_layout_def Let_def split: option.splits)
  show "\<forall>s. WriteFile LayoutPath s \<notin> set (snd (inject fs src config tag))"
    using a f by (auto simp: inject_def copy_monitor_def patch_layout_def Let_def split: option.splits)
qed

theorem inject_copy_failure:
  "app_exists readonly_app \<and> \<not> layout_exists readonly_app
   \<and> fst (inject readonly_app ''monitor'' ''config'' ''tag'') = 1"
  by (simp add: readonly_app_def bare_app_def inject_def copy_monitor_def)

theorem inject_exit_status_witness:
  "app_exists bare_app \<and> \<not> layout_exists bare_app
   \<and> fst (inject bare_app ''monitor'' ''config'' ''tag'') = 0
   \<and> ConsoleLog ''layout.tsx not found at:''
        \<in> set (snd (inject bare_app ''monitor'' ''config'' ''tag''))
   \<and> \<not> app_exists (bare_app\<lparr>app_exists := False\<rparr>)
   \<and> fst (inject (bare_app\<lparr>app_exists := False\<rparr>) ''monitor'' ''config'' ''tag'') = 1
   \<and> fst (inject readonly_app ''monitor'' ''config'' ''tag'') = 1"
  using inject_exit_status[of bare_app "''monitor''" "''config''" "''tag''"]
    inject_exit_status[of "bare_app\<lparr>app_exists := False\<rparr>" "''monitor''" "''config''" "''tag''"]
    inject_exit_status[of readonly_app "''monitor''" "''config''" "''tag''"]
  by (simp add: bare_app_def readonly_app_def)

section \<open>Results about the interceptor function\<close>

lemma interceptor_keeps_console:
  "console (fst (snd (interceptor nh type_error m args))) = console m
   \<and> originalConsole (fst (snd (interceptor nh type_error m args))) = originalConsole m"
  by (simp add: interceptor_def split: sum.splits option.splits)

text \<open>
  The interceptor by itself, on a monitor that holds the saved console: a call whose
  formatted message has the stored key only calls the original function; any other call
  stores its key, starts \<^verbatim>\<open>handleConsoleError\<close> and calls the original function. So
  of a sequence of calls with one key, made while \<^verbatim>\<open>console.error\<close> is the
  interceptor, only the first starts a report, and not even that one when the key is
  already stored.
\<close>

theorem interceptor_suppresses_repeats:
  "(originalConsole m = Some oc \<longrightarrow>
      formatMessageWithPlaceholders nh (arg_at args 0) (drop 1 args) = Inr formatted \<longrightarrow>
      interceptor nh type_error m args =
        (if errorHash formatted = lastErrorHash m
         then (Inr (), m, [Invoke (c_error oc) args])
         else (Inr (), m\<lparr>lastErrorHash := errorHash formatted\<rparr>,
               [StartHandleConsoleError ''error'' (JStr formatted) args,
                Invoke (c_error oc) args])))
   \<and> (c_error (console m) = Interceptor \<longrightarrow> originalConsole m \<noteq> None \<longrightarrow>
        (\<forall>a\<in>set calls. \<exists>f. formatMessageWithPlaceholders nh (arg_at a 0) (drop 1 a) = Inr f
                               \<and> errorHash f = k) \<longrightarrow>
        length (started_flows (snd (snd (console_errors nh type_error m calls))))
          = (if calls = [] \<or> lastErrorHash m = k then 0 else 1))"
proof (intro conjI impI)
  assume "originalConsole m = Some oc"
    and "formatMessageWithPlaceholders nh (arg_at args 0) (drop 1 args) = Inr formatted"
  then show "interceptor nh type_error m args =
        (if errorHash formatted = lastErrorHash m
         then (Inr (), m, [Invoke (c_error oc) args])
         else (Inr (), m\<lparr>lastErrorHash := errorHash formatted\<rparr>,
               [StartHandleConsoleError ''error'' (JStr formatted) args,
                Invoke (c_error oc) args]))"
    by (simp add: interceptor_def)
next
  assume "c_error (console m) = Interceptor" "originalConsole m \<noteq> None"
    and "\<forall>a\<in>set calls. \<exists>f. formatMessageWithPlaceholders nh (arg_at a 0) (drop 1 a) = Inr f
                               \<and> errorHash f = k"
  then show "length (started_flows (snd (snd (console_errors nh type_error m calls))))
          = (if calls = [] \<or> lastErrorHash m = k then 0 else 1)"
  proof (induction calls arbitrary: m)
    case Nil
    then show ?case by simp
  next
    case (Cons a calls)
    from Cons.prems obtain oc f where oc: "originalConsole m = Some oc"
      and f: "formatMessageWithPlaceholders nh (arg_at a 0) (drop 1 a) = Inr f"
      and k: "errorHash f = k"
      by auto
    define m' where "m' = (if k = lastErrorHash m then m else m\<lparr>lastErrorHash := k\<rparr>)"
    define t where "t = (if k = lastErrorHash m then []
        else [StartHandleConsoleError ''error'' (JStr f) a]) @ [Invoke (c_error oc) a]"
    have step: "console_error nh type_error m a = (Inr (), m', t)"
      using Cons.prems(1) oc f k by (simp add: console_error_def interceptor_def m'_def t_def)
    have m': "c_error (console m') = Interceptor" "originalConsole m' \<noteq> None"
      "lastErrorHash m' = k"
      using Cons.prems(1) oc by (simp_all add: m'_def)
    have rest: "\<forall>a\<in>set calls. \<exists>f. formatMessageWithPlaceholders nh (arg_at a 0) (drop 1 a) = Inr f
                               \<and> errorHash f = k"
      using Cons.prems(3) by simp
    have ih: "length (started_flows (snd (snd (console_errors nh type_error m' calls)))) = 0"
      using Cons.IH[OF m'(1) m'(2) rest] m'(3) by simp
    have app: "started_flows (x @ y) = started_flows x @ started_flows y" for x y
      by (induction x rule: started_flows.induct) simp_all
    show ?case
      using ih by (cases "console_errors nh type_error m' calls") (simp add: step app t_def)
  qed
qed

theorem interceptor_suppresses_repeats_witness:
  "c_error (console intercepting_monitor) = Interceptor
   \<and> originalConsole intercepting_monitor \<noteq> None
   \<and> length (started_flows (snd (snd (console_errors plain_host JNull intercepting_monitor
         [[JStr ''boom''], [JStr ''boom''], [JStr ''boom'']])))) = 1"
proof -
  have a: "c_error (console intercepting_monitor) = Interceptor"
    by (simp add: intercepting_monitor_eq)
  have b: "originalConsole intercepting_monitor \<noteq> None"
    by (simp add: intercepting_monitor_eq)
  have c: "\<forall>a\<in>set [[JStr ''boom''], [JStr ''boom''], [JStr ''boom'']].
       \<exists>f. formatMessageWithPlaceholders plain_host (arg_at a 0) (drop 1 a) = Inr f
            \<and> errorHash f = ''console-error-boom''"
    by (simp add: formatMessageWithPlaceholders_def arg_at_def errorHash_def)
  have d: "lastErrorHash intercepting_monitor \<noteq> ''console-error-boom''"
    by (simp add: intercepting_monitor_eq)
  note t = interceptor_suppresses_repeats[where m=intercepting_monitor and nh=plain_host
      and type_error=JNull and k="''console-error-boom''"
      and calls="[[JStr ''boom''], [JStr ''boom''], [JStr ''boom'']]",
      THEN conjunct2, rule_format, OF a b]
  have "length (started_flows (snd (snd (console_errors plain_host JNull intercepting_monitor
         [[JStr ''boom''], [JStr ''boom''], [JStr ''boom'']])))) = 1"
    using t c d by simp
  then show ?thesis using a b by simp
qed

end
